theory Spec2Isabelle
  imports Main
begin

section \<open>Python values\<close>

text \<open>
  The pipeline state (\<^verbatim>\<open>result\<close>, \<^verbatim>\<open>updated_state\<close>), the approval records, the stored
  decisions and the broadcast messages are Python dictionaries with string keys. A
  dictionary is an association list read with \<open>map_of\<close> (the first binding of a key is
  the live one), so \<^verbatim>\<open>{**a, **b, k: v}\<close> is \<open>(k, v) # b @ a\<close> and \<^verbatim>\<open>d[k] = v\<close> is
  \<open>(k, v) # d\<close>. The empty list is the empty dictionary. \<open>PObj\<close> is any other object
  (a LangChain message, say), named by a tag: it is truthy, has no \<^verbatim>\<open>get\<close>, no length
  and no items.
\<close>

datatype pyval =
    PNone
  | PBool bool
  | PStr string
  | PList "pyval list"
  | PDict "(string \<times> pyval) list"
  | PObj string

type_synonym pydict = "(string \<times> pyval) list"

text \<open>
  Exceptions, all subclasses of \<^verbatim>\<open>Exception\<close>. The argument of a built-in error names
  the attribute, key or operation that failed; \<open>Raised\<close> is an exception raised inside a
  collaborator (pipeline stage, memory store).
\<close>

datatype exn =
    AttributeError string
  | KeyError string
  | TypeError string
  | Raised string

fun truthy :: "pyval \<Rightarrow> bool" where
  "truthy PNone = False"
| "truthy (PBool b) = b"
| "truthy (PStr s) = (s \<noteq> [])"
| "truthy (PList xs) = (xs \<noteq> [])"
| "truthy (PDict d) = (d \<noteq> [])"
| "truthy (PObj t) = True"

text \<open>\<^verbatim>\<open>d.get(k, default)\<close> on a dictionary.\<close>

definition dict_get :: "pydict \<Rightarrow> string \<Rightarrow> pyval \<Rightarrow> pyval" where
  "dict_get d k dflt = (case map_of d k of None \<Rightarrow> dflt | Some v \<Rightarrow> v)"

text \<open>\<^verbatim>\<open>v.get(k, default)\<close> on any value: only a dictionary has \<^verbatim>\<open>get\<close>.\<close>

fun py_get :: "pyval \<Rightarrow> string \<Rightarrow> pyval \<Rightarrow> exn + pyval" where
  "py_get (PDict d) k dflt = Inr (dict_get d k dflt)"
| "py_get v k dflt = Inl (AttributeError ''get'')"

text \<open>\<^verbatim>\<open>v[k]\<close> and \<^verbatim>\<open>v[k] = x\<close> for a string key \<open>k\<close>.\<close>

fun py_item :: "pyval \<Rightarrow> string \<Rightarrow> exn + pyval" where
  "py_item (PDict d) k = (case map_of d k of None \<Rightarrow> Inl (KeyError k) | Some v \<Rightarrow> Inr v)"
| "py_item v k = Inl (TypeError ''getitem'')"

fun py_setitem :: "pyval \<Rightarrow> string \<Rightarrow> pyval \<Rightarrow> exn + pyval" where
  "py_setitem (PDict d) k x = Inr (PDict ((k, x) # d))"
| "py_setitem v k x = Inl (TypeError ''setitem'')"

text \<open>Sequencing of statements that may raise.\<close>

definition on_ok :: "'e + 'a \<Rightarrow> ('a \<Rightarrow> 'e + 'b) \<Rightarrow> 'e + 'b" where
  "on_ok r f = (case r of Inl e \<Rightarrow> Inl e | Inr x \<Rightarrow> f x)"

section \<open>Collaborators\<close>

text \<open>
  What \<^verbatim>\<open>src/ui/app.py\<close> calls and does not define: the compiled agent graph
  (\<^verbatim>\<open>agent.invoke(email_data, config)\<close>, the thread id of \<^verbatim>\<open>config\<close> being the workflow
  id), the three pipeline nodes, the memory store (\<^verbatim>\<open>get_memory()\<close> is \<^verbatim>\<open>None\<close> when
  \<open>get_memory\<close> is false; \<^verbatim>\<open>save_email_interaction\<close> returns the exception it raises, if
  any), and Python's built-in \<^verbatim>\<open>str\<close> on values and on exceptions. A collaborator that
  raises returns \<open>Inl\<close>.
\<close>

record runtime =
  agent_invoke :: "pydict \<Rightarrow> string \<Rightarrow> exn + pydict"
  react_agent_node :: "pydict \<Rightarrow> exn + pydict"
  execute_action_node :: "pydict \<Rightarrow> exn + pydict"
  update_memory_node :: "pydict \<Rightarrow> exn + pydict"
  get_memory :: bool
  save_email_interaction :: "pydict \<Rightarrow> exn option"
  str_value :: "pyval \<Rightarrow> string"
  str_exn :: "exn \<Rightarrow> string"

section \<open>The registry and the hub (module state of \<^verbatim>\<open>src/ui/app.py\<close>)\<close>

text \<open>
  A websocket connection: its identity and whether \<^verbatim>\<open>send_json\<close> on it succeeds.
\<close>

record websocket =
  ws_id :: nat
  send_ok :: bool

text \<open>The calls made to the pipeline, in order, with the state each was given.\<close>

datatype stage_call =
    AgentInvoke pydict
  | ReactAgent pydict
  | ExecuteAction pydict
  | UpdateMemory pydict

text \<open>
  \<open>pending_approvals\<close>, \<open>approval_events\<close>, \<open>approval_decisions\<close>,
  \<open>websocket_connections\<close> and \<open>background_loop\<close> are the module's globals
  (\<open>background_loop\<close> is true when the global is not \<^verbatim>\<open>None\<close>). An \<^verbatim>\<open>asyncio.Event\<close> is an
  object: \<open>approval_events\<close> holds a reference, \<open>events\<close> holds the flag of every event
  object, and \<open>next_event\<close> is the next fresh reference. \<open>scheduled\<close> lists the
  \<^verbatim>\<open>_set_event\<close> coroutines submitted to the background loop and not yet run.
  The remaining fields record effects on the outside: \<open>sent\<close> every \<^verbatim>\<open>send_json\<close> that
  succeeded, \<open>broadcasts\<close> every call of \<^verbatim>\<open>broadcast_message\<close>, \<open>memory_rows\<close> every
  completed \<^verbatim>\<open>save_email_interaction\<close>, \<open>calls\<close> every pipeline call.
\<close>

record app_state =
  pending_approvals :: "string \<rightharpoonup> pydict"
  approval_events :: "string \<rightharpoonup> nat"
  approval_decisions :: "string \<rightharpoonup> pydict"
  websocket_connections :: "websocket list"
  background_loop :: bool
  events :: "nat \<Rightarrow> bool"
  next_event :: nat
  scheduled :: "nat list"
  sent :: "(nat \<times> pydict) list"
  broadcasts :: "pydict list"
  memory_rows :: "pydict list"
  calls :: "stage_call list"

text \<open>
  \<^verbatim>\<open>broadcast_message\<close>: send to every connection; a connection whose send raises is
  collected and removed afterwards (\<^verbatim>\<open>list.remove\<close> drops the first equal element).
  Nothing is raised to the caller.
\<close>

definition broadcast_message :: "pydict \<Rightarrow> app_state \<Rightarrow> app_state" where
  "broadcast_message message s =
     (let disconnected = filter (\<lambda>ws. \<not> send_ok ws) (websocket_connections s)
      in s\<lparr> websocket_connections := foldl (\<lambda>cs ws. remove1 ws cs) (websocket_connections s) disconnected,
            sent := sent s @ map (\<lambda>ws. (ws_id ws, message)) (filter send_ok (websocket_connections s)),
            broadcasts := broadcasts s @ [message] \<rparr>)"

text \<open>\<^verbatim>\<open>asyncio.Event()\<close>: a fresh event object, not set.\<close>

definition new_event :: "app_state \<Rightarrow> nat \<times> app_state" where
  "new_event s = (next_event s, s\<lparr> events := (events s)(next_event s := False),
                                   next_event := Suc (next_event s) \<rparr>)"

text \<open>
  The "Store and broadcast" block of \<^verbatim>\<open>run_agent_workflow\<close> (lines 249-256 and 382-389).
  \<open>register\<close> is its two plain dictionary assignments (lines 250-251 and 383-384), which
  run with no await between them. The \<^verbatim>\<open>approval_required\<close> broadcast that follows is
  awaited, and a decision can be received while it is under way, so the coroutine has a
  state of its own there (\<open>Broadcasting\<close>, below). \<open>store_and_broadcast\<close> is the block as a
  whole, when nothing is received in between.
\<close>

definition register :: "string \<Rightarrow> pydict \<Rightarrow> app_state \<Rightarrow> app_state" where
  "register workflow_id approval_data s =
     (let s1 = s\<lparr> pending_approvals := (pending_approvals s)(workflow_id \<mapsto> approval_data) \<rparr>;
          (e, s2) = new_event s1
      in s2\<lparr> approval_events := (approval_events s2)(workflow_id \<mapsto> e) \<rparr>)"

definition approval_required :: "pydict \<Rightarrow> pydict" where
  "approval_required approval_data =
     [(''type'', PStr ''approval_required''), (''data'', PDict approval_data)]"

definition store_and_broadcast :: "string \<Rightarrow> pydict \<Rightarrow> app_state \<Rightarrow> app_state" where
  "store_and_broadcast workflow_id approval_data s =
     broadcast_message (approval_required approval_data) (register workflow_id approval_data s)"

section \<open>The decision channel (\<^verbatim>\<open>websocket_endpoint\<close>, lines 88-130)\<close>

text \<open>
  One inbound message, after \<^verbatim>\<open>json.loads\<close>. \<open>msg_workflow_id\<close> and \<open>msg_decision\<close> are
  read with \<^verbatim>\<open>message[...]\<close>, \<open>msg_edited_content\<close> with \<^verbatim>\<open>message.get(..., "")\<close>.
\<close>

record message =
  msg_type :: string
  msg_workflow_id :: string
  msg_decision :: string
  msg_edited_content :: "string option"

definition decision_recorded :: "string \<Rightarrow> string \<Rightarrow> pydict" where
  "decision_recorded workflow_id decision =
     [(''type'', PStr ''decision_recorded''), (''workflow_id'', PStr workflow_id),
      (''decision'', PStr decision)]"

definition decision_record :: "string \<Rightarrow> message \<Rightarrow> pydict" where
  "decision_record now m =
     [(''decision'', PStr (msg_decision m)),
      (''edited_content'', PStr (case msg_edited_content m of None \<Rightarrow> '''' | Some c \<Rightarrow> c)),
      (''timestamp'', PStr now)]"

text \<open>
  The body of the receive loop for one message; \<open>now\<close> is \<^verbatim>\<open>datetime.now().isoformat()\<close>.
  The event looked up in \<open>approval_events\<close> is set at once when there is no background
  loop, and otherwise handed to the background loop as a \<^verbatim>\<open>_set_event\<close> coroutine.
\<close>

definition websocket_receive :: "string \<Rightarrow> message \<Rightarrow> app_state \<Rightarrow> app_state" where
  "websocket_receive now m s =
     (if msg_type m = ''human_decision'' then
        let workflow_id = msg_workflow_id m;
            s1 = s\<lparr> approval_decisions := (approval_decisions s)(workflow_id \<mapsto> decision_record now m) \<rparr>;
            s2 = (case approval_events s1 workflow_id of
                    None \<Rightarrow> s1
                  | Some e \<Rightarrow>
                      if background_loop s1 then s1\<lparr> scheduled := scheduled s1 @ [e] \<rparr>
                      else s1\<lparr> events := (events s1)(e := True) \<rparr>);
            s3 = s2\<lparr> pending_approvals := (pending_approvals s2)(workflow_id := None) \<rparr>
        in broadcast_message (decision_recorded workflow_id (msg_decision m)) s3
      else s)"

text \<open>
  The background loop runs the submitted \<^verbatim>\<open>_set_event\<close> coroutines: each sets the event
  object it was given.
\<close>

definition run_scheduled :: "app_state \<Rightarrow> app_state" where
  "run_scheduled s =
     s\<lparr> events := foldl (\<lambda>f e. f(e := True)) (events s) (scheduled s), scheduled := [] \<rparr>"

section \<open>The workflow coordinator (\<^verbatim>\<open>run_agent_workflow\<close>)\<close>

text \<open>
  \<^verbatim>\<open>email_data\<close> as both callers build it (\<^verbatim>\<open>process_email\<close> in \<^verbatim>\<open>src/ui/app.py\<close>,
  \<^verbatim>\<open>process_incoming_email\<close> in \<^verbatim>\<open>src/run_server.py\<close>): the five keys the coordinator
  reads hold strings and are always present; \<open>email_rest\<close> holds the keys only the
  pipeline reads. Text is its UTF-8 encoding, a list of bytes: a character is a lead byte
  followed by its continuation bytes (those from 128 to 191).
\<close>

record email_data =
  email_id :: string
  email_from :: string
  email_to :: string
  email_subject :: string
  email_body :: string
  email_rest :: pydict

definition email_dict :: "email_data \<Rightarrow> pydict" where
  "email_dict email =
     [(''email_id'', PStr (email_id email)), (''email_from'', PStr (email_from email)),
      (''email_to'', PStr (email_to email)), (''email_subject'', PStr (email_subject email)),
      (''email_body'', PStr (email_body email))] @ email_rest email"

text \<open>
  The coroutine between its awaits. \<open>Broadcasting\<close>: the registry entry and the event
  are stored (lines 250-251 or 383-384 have run) and the coroutine is inside
  \<^verbatim>\<open>await broadcast_message(...)\<close> of the \<^verbatim>\<open>approval_required\<close> message (lines 253-256 or
  386-389), whose record it carries. The sends of one broadcast are taken together, in
  the step that leaves this state; they touch only the connections and the logs of what
  was sent, so the registry of this state is the registry at every moment of the
  broadcast, from before the first \<^verbatim>\<open>send_json\<close> to after the last, and whatever is
  received while the message is going out is received in this state. \<open>Suspended\<close>: the
  broadcast has returned; the next statement evaluates
  \<^verbatim>\<open>approval_events[workflow_id].wait()\<close>. \<open>Waiting\<close>: inside \<^verbatim>\<open>asyncio.wait_for\<close> on the
  event object with the given reference. All three carry the local variable \<^verbatim>\<open>result\<close>.
  \<open>Finished\<close>: the function has returned, at the return point the outcome names.
\<close>

datatype flavor = Notify | Draft

datatype outcome = TimedOut | Ignored | Denied | Executed | AutoApproved | Failed

datatype coroutine =
    Broadcasting flavor pydict pydict
  | Suspended flavor pydict
  | Waiting flavor nat pydict
  | Finished outcome

subsection \<open>Outbound messages\<close>

definition triage_complete :: "string \<Rightarrow> pyval \<Rightarrow> pyval \<Rightarrow> pydict" where
  "triage_complete workflow_id decision reasoning =
     [(''type'', PStr ''triage_complete''), (''workflow_id'', PStr workflow_id),
      (''decision'', decision), (''reasoning'', reasoning)]"

definition workflow_timeout :: "string \<Rightarrow> pydict" where
  "workflow_timeout workflow_id =
     [(''type'', PStr ''workflow_timeout''), (''workflow_id'', PStr workflow_id)]"

definition workflow_error :: "string \<Rightarrow> string \<Rightarrow> pydict" where
  "workflow_error workflow_id text =
     [(''type'', PStr ''workflow_error''), (''workflow_id'', PStr workflow_id),
      (''error'', PStr text)]"

definition workflow_complete :: "string \<Rightarrow> pyval \<Rightarrow> pyval \<Rightarrow> pydict" where
  "workflow_complete workflow_id decision status =
     [(''type'', PStr ''workflow_complete''), (''workflow_id'', PStr workflow_id),
      (''decision'', decision), (''execution_status'', status)]"

subsection \<open>Approval records\<close>

text \<open>
  \<^verbatim>\<open>text[:n]\<close>: the first \<open>n\<close> characters of a text, each with its continuation bytes.
\<close>

definition continuation :: "char \<Rightarrow> bool" where
  "continuation c = (128 \<le> (of_char c :: nat) \<and> (of_char c :: nat) < 192)"

fun take_chars :: "nat \<Rightarrow> string \<Rightarrow> string" where
  "take_chars 0 s = []"
| "take_chars (Suc n) [] = []"
| "take_chars (Suc n) (c # cs) =
     c # takeWhile continuation cs @ take_chars n (dropWhile continuation cs)"

text \<open>The f-string of line 244; its first character is U+1F4E7, four bytes in UTF-8.\<close>

definition notification_preview :: "email_data \<Rightarrow> string" where
  "notification_preview email =
     [CHR 0xF0, CHR 0x9F, CHR 0x93, CHR 0xA7] @ '' **Notification Email**'' @ [CHR 10, CHR 10]
     @ ''From: '' @ email_from email @ [CHR 10]
     @ ''Subject: '' @ email_subject email @ [CHR 10, CHR 10]
     @ take_chars 500 (email_body email) @ ''...''"

definition notification_data :: "string \<Rightarrow> string \<Rightarrow> email_data \<Rightarrow> pydict" where
  "notification_data now workflow_id email =
     [(''workflow_id'', PStr workflow_id), (''action_type'', PStr ''notify_human''),
      (''recipient'', PStr (email_from email)), (''subject'', PStr (email_subject email)),
      (''body'', PStr (email_body email)),
      (''draft_preview'', PStr (notification_preview email)),
      (''timestamp'', PStr now), (''notification_type'', PBool True)]"

text \<open>
  Lines 362-369: \<^verbatim>\<open>messages and len(messages) > 0\<close>, then \<^verbatim>\<open>messages[0]\<close>. A true boolean
  and an object have no length; a non-empty dictionary has no key \<^verbatim>\<open>0\<close>.
\<close>

definition message_preview :: "runtime \<Rightarrow> pyval \<Rightarrow> pyval" where
  "message_preview rt msg =
     (case msg of PDict d \<Rightarrow> dict_get d ''content'' (PStr '''') | _ \<Rightarrow> PStr (str_value rt msg))"

fun first_message_preview :: "runtime \<Rightarrow> pyval \<Rightarrow> exn + pyval" where
  "first_message_preview rt PNone = Inr (PStr '''')"
| "first_message_preview rt (PBool b) = (if b then Inl (TypeError ''len'') else Inr (PStr ''''))"
| "first_message_preview rt (PStr []) = Inr (PStr '''')"
| "first_message_preview rt (PStr (c # cs)) = Inr (message_preview rt (PStr [c]))"
| "first_message_preview rt (PList []) = Inr (PStr '''')"
| "first_message_preview rt (PList (msg # msgs)) = Inr (message_preview rt msg)"
| "first_message_preview rt (PDict []) = Inr (PStr '''')"
| "first_message_preview rt (PDict (kv # kvs)) = Inl (KeyError ''0'')"
| "first_message_preview rt (PObj t) = Inl (TypeError ''len'')"

text \<open>Lines 358-380: the projection of the pending action shown for approval.\<close>

definition draft_approval_data :: "runtime \<Rightarrow> string \<Rightarrow> string \<Rightarrow> pydict \<Rightarrow> exn + pydict" where
  "draft_approval_data rt now workflow_id result =
     (let pending_action = dict_get result ''pending_action'' (PDict []) in
      on_ok (py_get pending_action ''args'' (PDict [])) (\<lambda>args.
      on_ok (first_message_preview rt (dict_get result ''messages'' (PList []))) (\<lambda>draft_preview.
      on_ok (py_get pending_action ''action_type'' (PStr '''')) (\<lambda>action_type.
      on_ok (py_get args ''recipient'' (PStr '''')) (\<lambda>recipient.
      on_ok (py_get args ''subject'' (PStr '''')) (\<lambda>subject.
      on_ok (py_get args ''body'' (PStr '''')) (\<lambda>body.
        Inr [(''workflow_id'', PStr workflow_id), (''action_type'', action_type),
             (''recipient'', recipient), (''subject'', subject), (''body'', body),
             (''draft_preview'', draft_preview), (''timestamp'', PStr now),
             (''notification_type'', PBool False)])))))))"

subsection \<open>Audit rows\<close>

definition interaction :: "string \<Rightarrow> email_data \<Rightarrow> pyval \<Rightarrow> pydict" where
  "interaction workflow_id email triage =
     [(''email_id'', PStr workflow_id), (''email_from'', PStr (email_from email)),
      (''email_subject'', PStr (email_subject email)), (''triage_decision'', triage),
      (''action_taken'', PStr ''none''), (''human_approved'', PBool False)]"

text \<open>\<^verbatim>\<open>memory = get_memory(); if memory: memory.save_email_interaction(...)\<close>.\<close>

definition save_interaction :: "runtime \<Rightarrow> pydict \<Rightarrow> app_state \<Rightarrow> exn + app_state" where
  "save_interaction rt row s =
     (if get_memory rt then
        (case save_email_interaction rt row of
           Some e \<Rightarrow> Inl e
         | None \<Rightarrow> Inr (s\<lparr> memory_rows := memory_rows s @ [row] \<rparr>))
      else Inr s)"

subsection \<open>The body of the \<^verbatim>\<open>try\<close> block\<close>

text \<open>
  A segment of the body either raises (\<open>Inl\<close>, with the state reached) or runs to the
  await of the \<^verbatim>\<open>approval_required\<close> broadcast, or to a \<^verbatim>\<open>return\<close>.
\<close>

type_synonym segment = "(exn \<times> app_state) + (app_state \<times> coroutine)"

text \<open>Lines 356-391 and 523-530: \<^verbatim>\<open>if result.get("requires_approval")\<close> and its \<^verbatim>\<open>else\<close>.\<close>

definition approval_section :: "runtime \<Rightarrow> string \<Rightarrow> string \<Rightarrow> pydict \<Rightarrow> app_state \<Rightarrow> segment" where
  "approval_section rt now workflow_id result s =
     (if truthy (dict_get result ''requires_approval'' PNone) then
        (case draft_approval_data rt now workflow_id result of
           Inl e \<Rightarrow> Inl (e, s)
         | Inr approval_data \<Rightarrow>
             Inr (register workflow_id approval_data s,
                  Broadcasting Draft approval_data result))
      else
        Inr (broadcast_message
               (workflow_complete workflow_id (PStr ''auto_approved'') (PStr ''complete'')) s,
             Finished AutoApproved))"

text \<open>Lines 203-256: phase 1, the triage broadcast and the notify suspension.\<close>

definition phase1 :: "runtime \<Rightarrow> string \<Rightarrow> string \<Rightarrow> email_data \<Rightarrow> app_state \<Rightarrow> segment" where
  "phase1 rt now workflow_id email s =
     (let s1 = s\<lparr> calls := calls s @ [AgentInvoke (email_dict email)] \<rparr> in
      case agent_invoke rt (email_dict email) workflow_id of
        Inl e \<Rightarrow> Inl (e, s1)
      | Inr result \<Rightarrow>
          let triage_decision = dict_get result ''triage_decision'' (PStr '''');
              triage_reasoning = dict_get result ''triage_reasoning'' (PStr '''');
              s2 = broadcast_message (triage_complete workflow_id triage_decision triage_reasoning) s1
          in if triage_decision = PStr ''notify_human'' then
               Inr (register workflow_id (notification_data now workflow_id email) s2,
                    Broadcasting Notify (notification_data now workflow_id email) result)
             else approval_section rt now workflow_id result s2)"

text \<open>Lines 314-323: the state handed to \<^verbatim>\<open>react_agent_node\<close>.\<close>

definition email_data_for_draft :: "email_data \<Rightarrow> pydict \<Rightarrow> pydict" where
  "email_data_for_draft email result =
     [(''triage_decision'', PStr ''respond''), (''email_id'', PStr (email_id email)),
      (''email_from'', PStr (email_from email)), (''email_to'', PStr (email_to email)),
      (''email_subject'', PStr (email_subject email)),
      (''email_body'', PStr (email_body email))] @ result"

text \<open>
  Lines 274-354, then the fall-through into line 357: the notify suspension has been
  signalled. The inner \<^verbatim>\<open>try\<close> around the draft stage broadcasts its own error and returns.
\<close>

definition after_notification ::
  "runtime \<Rightarrow> string \<Rightarrow> string \<Rightarrow> email_data \<Rightarrow> pydict \<Rightarrow> app_state \<Rightarrow> segment" where
  "after_notification rt now workflow_id email result s =
     (let decision_data = (case approval_decisions s workflow_id of None \<Rightarrow> [] | Some d \<Rightarrow> d);
          decision = dict_get decision_data ''decision'' (PStr ''ignore'')
      in if decision = PStr ''ignore'' then
           (let s1 = broadcast_message
                       (workflow_complete workflow_id (PStr ''ignored'') (PStr ''complete'')) s
            in case save_interaction rt (interaction workflow_id email (PStr ''notify_human'')) s1 of
                 Inl e \<Rightarrow> Inl (e, s1)
               | Inr s2 \<Rightarrow> Inr (s2, Finished Ignored))
         else if decision = PStr ''respond'' then
           (let draft_input = email_data_for_draft email result;
                s1 = s\<lparr> calls := calls s @ [ReactAgent draft_input] \<rparr>
            in case react_agent_node rt draft_input of
                 Inl e \<Rightarrow>
                   Inr (broadcast_message
                          (workflow_error workflow_id (''Failed to create draft: '' @ str_exn rt e)) s1,
                        Finished Failed)
               | Inr draft_result \<Rightarrow>
                   approval_section rt now workflow_id
                     ((''requires_approval'', PBool True) # draft_result @ result) s1)
         else approval_section rt now workflow_id result s)"

text \<open>
  Lines 456-466: the edit. \<^verbatim>\<open>updated_state["pending_action"]["args"]["body"] = ...\<close> reads
  two items and assigns into the inner dictionary in place; \<open>with_item\<close> is that same
  dictionary object seen again through its holder.
\<close>

fun with_item :: "pyval \<Rightarrow> string \<Rightarrow> pyval \<Rightarrow> pyval" where
  "with_item (PDict d) k x = PDict ((k, x) # d)"
| "with_item v k x = v"

definition apply_edit :: "pyval \<Rightarrow> pydict \<Rightarrow> exn + pydict" where
  "apply_edit edited_content updated_state =
     (let us = (''human_decision'', PStr ''edit'')
               # (''human_feedback'', PDict [(''body_content'', edited_content)])
               # updated_state
      in if truthy (dict_get us ''pending_action'' PNone) then
           on_ok (py_item (PDict us) ''pending_action'') (\<lambda>pending_action.
           on_ok (py_item pending_action ''args'') (\<lambda>args.
           on_ok (py_setitem args ''body'' edited_content) (\<lambda>args'.
             Inr ((''pending_action'', with_item pending_action ''args'' args') # us))))
         else Inr us)"

text \<open>Lines 478-521: execution and memory update, inside the inner \<^verbatim>\<open>try\<close>.\<close>

definition execute_and_update ::
  "runtime \<Rightarrow> string \<Rightarrow> pyval \<Rightarrow> pydict \<Rightarrow> app_state \<Rightarrow> app_state \<times> coroutine" where
  "execute_and_update rt workflow_id decision updated_state s =
     (let s1 = s\<lparr> calls := calls s @ [ExecuteAction updated_state] \<rparr> in
      case execute_action_node rt updated_state of
        Inl e \<Rightarrow>
          (broadcast_message
             (workflow_error workflow_id (''Execution failed: '' @ str_exn rt e)) s1,
           Finished Failed)
      | Inr execution_result \<Rightarrow>
          (let s2 = s1\<lparr> calls := calls s1 @ [UpdateMemory execution_result] \<rparr> in
           case update_memory_node rt execution_result of
             Inl e \<Rightarrow>
               (broadcast_message
                  (workflow_error workflow_id (''Execution failed: '' @ str_exn rt e)) s2,
                Finished Failed)
           | Inr memory_result \<Rightarrow>
               (broadcast_message
                  (workflow_complete workflow_id decision
                     (dict_get execution_result ''execution_status'' (PStr ''''))
                   @ [(''execution_result'',
                       dict_get execution_result ''execution_result'' (PStr ''''))]) s2,
                Finished Executed)))"

text \<open>Lines 407-521: the draft-approval suspension has been signalled.\<close>

definition after_approval ::
  "runtime \<Rightarrow> string \<Rightarrow> email_data \<Rightarrow> pydict \<Rightarrow> app_state \<Rightarrow> segment" where
  "after_approval rt workflow_id email result s =
     (let decision_data = (case approval_decisions s workflow_id of None \<Rightarrow> [] | Some d \<Rightarrow> d);
          decision = dict_get decision_data ''decision'' (PStr ''deny'');
          edited_content = dict_get decision_data ''edited_content'' (PStr '''')
      in if decision = PStr ''deny'' then
           (case save_interaction rt
                   (interaction workflow_id email
                      (dict_get result ''triage_decision'' (PStr ''respond''))) s of
              Inl e \<Rightarrow> Inl (e, s)
            | Inr s1 \<Rightarrow>
                Inr (broadcast_message
                       (workflow_complete workflow_id (PStr ''denied'') (PStr ''cancelled'')) s1,
                     Finished Denied))
         else
           (let updated_state = (''human_decision'', decision) # result in
            case (if decision = PStr ''edit'' \<and> truthy edited_content
                  then apply_edit edited_content updated_state
                  else Inr updated_state) of
              Inl e \<Rightarrow> Inl (e, s)
            | Inr updated_state' \<Rightarrow>
                Inr (execute_and_update rt workflow_id decision updated_state' s)))"

subsection \<open>The workflow boundary (lines 203 and 532-541)\<close>

text \<open>
  \<^verbatim>\<open>except Exception as e\<close>: whatever a segment raises is broadcast as
  \<^verbatim>\<open>workflow_error\<close> with \<^verbatim>\<open>str(e)\<close>, and the function returns.
\<close>

definition workflow_boundary :: "runtime \<Rightarrow> string \<Rightarrow> segment \<Rightarrow> app_state \<times> coroutine" where
  "workflow_boundary rt workflow_id r =
     (case r of
        Inl (e, s) \<Rightarrow>
          (broadcast_message (workflow_error workflow_id (str_exn rt e)) s, Finished Failed)
      | Inr x \<Rightarrow> x)"

text \<open>
  The call of \<^verbatim>\<open>run_agent_workflow\<close>, up to the await of its first \<^verbatim>\<open>approval_required\<close>
  broadcast or to its return.
\<close>

definition run_agent_workflow ::
  "runtime \<Rightarrow> string \<Rightarrow> string \<Rightarrow> email_data \<Rightarrow> app_state \<Rightarrow> app_state \<times> coroutine" where
  "run_agent_workflow rt now workflow_id email s =
     workflow_boundary rt workflow_id (phase1 rt now workflow_id email s)"

text \<open>
  The coroutine continues. From \<open>Broadcasting\<close> the broadcast of the approval record
  completes (it raises nothing). From \<open>Suspended\<close> it evaluates
  \<^verbatim>\<open>approval_events[workflow_id]\<close> and enters \<^verbatim>\<open>asyncio.wait_for(event.wait(), timeout=600)\<close>. From \<open>Waiting\<close> it wakes when
  the event object it waits on is set; when the event is not set and the 600 seconds have
  passed (\<open>elapsed\<close>), \<^verbatim>\<open>asyncio.TimeoutError\<close> is caught: the timeout is broadcast and the
  function returns (lines 266-272 and 399-405). Otherwise it keeps waiting. A finished
  coroutine does nothing.
\<close>

definition resume ::
  "runtime \<Rightarrow> string \<Rightarrow> bool \<Rightarrow> string \<Rightarrow> email_data \<Rightarrow> coroutine \<Rightarrow> app_state
     \<Rightarrow> app_state \<times> coroutine" where
  "resume rt now elapsed workflow_id email c s =
     (case c of
        Broadcasting fl approval_data result \<Rightarrow>
          (broadcast_message (approval_required approval_data) s, Suspended fl result)
      | Suspended fl result \<Rightarrow>
          workflow_boundary rt workflow_id
            (case approval_events s workflow_id of
               None \<Rightarrow> Inl (KeyError workflow_id, s)
             | Some e \<Rightarrow> Inr (s, Waiting fl e result))
      | Waiting fl e result \<Rightarrow>
          if events s e then
            workflow_boundary rt workflow_id
              (case fl of
                 Notify \<Rightarrow> after_notification rt now workflow_id email result s
               | Draft \<Rightarrow> after_approval rt workflow_id email result s)
          else if elapsed then
            (broadcast_message (workflow_timeout workflow_id) s, Finished TimedOut)
          else (s, c)
      | Finished out \<Rightarrow> (s, c))"

text \<open>\<^verbatim>\<open>state["pending_action"]["args"]["body"]\<close>: the content the execution stage sends.\<close>

definition action_body :: "pydict \<Rightarrow> exn + pyval" where
  "action_body st =
     on_ok (py_item (PDict st) ''pending_action'') (\<lambda>pending_action.
     on_ok (py_item pending_action ''args'') (\<lambda>args. py_item args ''body''))"



section \<open>The mailbox poller (\<^verbatim>\<open>src/gmail_poller.py\<close>)\<close>

text \<open>
  A parsed email, as \<^verbatim>\<open>_parse_message\<close> returns it: its \<^verbatim>\<open>id\<close> and the other fields.
\<close>

record mail =
  mail_id :: string
  mail_fields :: pydict

text \<open>
  The Gmail service during one cycle. \<open>list_unread\<close> is
  \<^verbatim>\<open>messages().list(...).execute()\<close> followed by \<^verbatim>\<open>results.get('messages', [])\<close>, as the
  list of message ids; \<open>get_raw\<close> is \<^verbatim>\<open>messages().get(...).execute()\<close>; both may raise.
  \<open>parse_message\<close> is \<^verbatim>\<open>_parse_message\<close> (MIME decoding with the standard library), which
  returns \<^verbatim>\<open>None\<close> when it fails.
\<close>

record gmail =
  list_unread :: "exn + string list"
  get_raw :: "string \<Rightarrow> exn + string"
  parse_message :: "string \<Rightarrow> mail option"

text \<open>
  What the loop does to the outside, in order: a callback invoked, a \<^verbatim>\<open>mark_as_read\<close>
  (which swallows its own errors), a \<^verbatim>\<open>time.sleep\<close> of so many seconds. The poller
  record holds the two attributes the loop uses, the local variable \<^verbatim>\<open>consecutive_errors\<close>
  of \<^verbatim>\<open>start_polling\<close>, and these actions.
\<close>

datatype action = Callback mail | MarkRead string | Sleep nat

record poller =
  processed_ids :: "string set"
  running :: bool
  consecutive_errors :: nat
  actions :: "action list"

text \<open>Lines 54-76: the loop over the listed messages.\<close>

fun fetch_messages :: "gmail \<Rightarrow> string list \<Rightarrow> mail list \<Rightarrow> string set \<Rightarrow> mail list \<times> string set" where
  "fetch_messages g [] emails seen = (emails, seen)"
| "fetch_messages g (i # ids) emails seen =
     (if i \<in> seen then fetch_messages g ids emails seen
      else case get_raw g i of
             Inl e \<Rightarrow> fetch_messages g ids emails seen
           | Inr full_msg \<Rightarrow>
               (case parse_message g full_msg of
                  None \<Rightarrow> fetch_messages g ids emails seen
                | Some email \<Rightarrow> fetch_messages g ids (emails @ [email]) (insert i seen)))"

text \<open>
  \<^verbatim>\<open>fetch_unread_emails\<close>: the outer \<^verbatim>\<open>except Exception\<close> (lines 80-82) turns a failed
  listing into the empty list.
\<close>

definition fetch_unread_emails :: "gmail \<Rightarrow> poller \<Rightarrow> mail list \<times> poller" where
  "fetch_unread_emails g p =
     (case list_unread g of
        Inl e \<Rightarrow> ([], p)
      | Inr messages \<Rightarrow>
          if messages = [] then ([], p)
          else (let (emails, seen) = fetch_messages g messages [] (processed_ids p)
                in (emails, p\<lparr> processed_ids := seen \<rparr>)))"

text \<open>
  Lines 220-242: the loop over the fetched emails. The callback returns the exception it
  raises, if any.
\<close>

fun process_emails :: "(mail \<Rightarrow> exn option) \<Rightarrow> mail list \<Rightarrow> poller \<Rightarrow> poller" where
  "process_emails callback [] p = p"
| "process_emails callback (email # emails) p =
     (case callback email of
        None \<Rightarrow>
          process_emails callback emails
            (p\<lparr> consecutive_errors := 0,
                actions := actions p @ [Callback email, MarkRead (mail_id email)] \<rparr>)
      | Some e \<Rightarrow>
          process_emails callback emails
            (p\<lparr> consecutive_errors := Suc (consecutive_errors p),
                actions := actions p @ [Callback email] \<rparr>))"

definition max_errors :: nat where
  "max_errors = 5"

text \<open>
  Lines 213-256: one pass of the \<^verbatim>\<open>while\<close> body. None of its statements outside the inner
  \<^verbatim>\<open>try\<close> raises an \<^verbatim>\<open>Exception\<close> (\<^verbatim>\<open>fetch_unread_emails\<close> and \<^verbatim>\<open>mark_as_read\<close> catch
  their own), so the handler of lines 263-266 is never entered from them.
\<close>

definition poll_cycle :: "(mail \<Rightarrow> exn option) \<Rightarrow> nat \<Rightarrow> gmail \<Rightarrow> poller \<Rightarrow> poller" where
  "poll_cycle callback poll_interval g p =
     (let (emails, p1) = fetch_unread_emails g p;
          p2 = process_emails callback emails p1;
          p3 = (if consecutive_errors p2 \<ge> max_errors
                then p2\<lparr> consecutive_errors := 0, actions := actions p2 @ [Sleep 300] \<rparr>
                else p2)
      in p3\<lparr> actions := actions p3 @ [Sleep poll_interval] \<rparr>)"

text \<open>
  The \<^verbatim>\<open>while self.running\<close> loop of \<^verbatim>\<open>start_polling\<close>, run over the successive states of
  the mailbox; the list ends where the run is cut off.
\<close>

fun polling_loop :: "(mail \<Rightarrow> exn option) \<Rightarrow> nat \<Rightarrow> gmail list \<Rightarrow> poller \<Rightarrow> poller" where
  "polling_loop callback poll_interval [] p = p"
| "polling_loop callback poll_interval (g # gs) p =
     (if running p then polling_loop callback poll_interval gs (poll_cycle callback poll_interval g p)
      else p)"

definition start_polling :: "(mail \<Rightarrow> exn option) \<Rightarrow> nat \<Rightarrow> gmail list \<Rightarrow> poller \<Rightarrow> poller" where
  "start_polling callback poll_interval gs p =
     polling_loop callback poll_interval gs (p\<lparr> running := True, consecutive_errors := 0 \<rparr>)"


section \<open>Sample inputs\<close>

text \<open>The module state at import: empty registries, no connection, no background loop.\<close>

definition init_state :: app_state where
  "init_state =
     \<lparr> pending_approvals = Map.empty, approval_events = Map.empty,
       approval_decisions = Map.empty, websocket_connections = [],
       background_loop = False, events = (\<lambda>e. False), next_event = 0, scheduled = [],
       sent = [], broadcasts = [], memory_rows = [], calls = [] \<rparr>"

definition demo_email :: email_data where
  "demo_email =
     \<lparr> email_id = ''m1'', email_from = ''customer@example.com'', email_to = ''you@company.com'',
       email_subject = ''Refund request'', email_body = ''Please refund my order.'',
       email_rest = [(''messages'', PList []), (''workflow_id'', PStr ''m1'')] \<rparr>"

definition demo_action :: pyval where
  "demo_action =
     PDict [(''action_type'', PStr ''send_email''),
            (''args'', PDict [(''recipient'', PStr ''customer@example.com''),
                              (''subject'', PStr ''Re: Refund request''),
                              (''body'', PStr ''Dear customer...'')])]"

text \<open>
  A pipeline whose triage answers \<^verbatim>\<open>notify_human\<close> and whose draft stage produces
  \<open>demo_action\<close>; and one whose first stage already asks for approval of \<open>demo_action\<close>.
\<close>

definition notify_runtime :: runtime where
  "notify_runtime =
     \<lparr> agent_invoke = (\<lambda>d w. Inr [(''triage_decision'', PStr ''notify_human''),
                                   (''pending_action'', PNone)]),
       react_agent_node = (\<lambda>d. Inr [(''pending_action'', demo_action)]),
       execute_action_node = (\<lambda>d. Inr [(''execution_status'', PStr ''success'')]),
       update_memory_node = (\<lambda>d. Inr d),
       get_memory = True,
       save_email_interaction = (\<lambda>row. None),
       str_value = (\<lambda>v. ''object''),
       str_exn = (\<lambda>e. case e of Raised t \<Rightarrow> t | _ \<Rightarrow> ''error'') \<rparr>"

definition draft_runtime :: runtime where
  "draft_runtime =
     notify_runtime\<lparr> agent_invoke := (\<lambda>d w. Inr [(''triage_decision'', PStr ''respond''),
                                                   (''requires_approval'', PBool True),
                                                   (''pending_action'', demo_action)]) \<rparr>"

definition human_decision :: "string \<Rightarrow> string \<Rightarrow> string option \<Rightarrow> message" where
  "human_decision workflow_id decision edited =
     \<lparr> msg_type = ''human_decision'', msg_workflow_id = workflow_id,
       msg_decision = decision, msg_edited_content = edited \<rparr>"

text \<open>
  Runs from \<open>init_state\<close> for the email \<open>m1\<close>: registered and broadcasting the
  notification; suspended on it; then waiting and timed out; run a second time while
  suspended; suspended on a draft and waiting; one decision received; a second one
  received before the coroutine runs again.
\<close>

definition notify_registered :: "app_state \<times> coroutine" where
  "notify_registered = run_agent_workflow notify_runtime ''t0'' ''m1'' demo_email init_state"

definition notify_suspended :: "app_state \<times> coroutine" where
  "notify_suspended =
     resume notify_runtime ''t0'' False ''m1'' demo_email (snd notify_registered) (fst notify_registered)"

definition notify_waiting :: "app_state \<times> coroutine" where
  "notify_waiting =
     resume notify_runtime ''t1'' False ''m1'' demo_email (snd notify_suspended) (fst notify_suspended)"

definition timeout_run :: "app_state \<times> coroutine" where
  "timeout_run =
     resume notify_runtime ''t2'' True ''m1'' demo_email (snd notify_waiting) (fst notify_waiting)"

definition second_run :: "app_state \<times> coroutine" where
  "second_run = run_agent_workflow notify_runtime ''t5'' ''m1'' demo_email (fst notify_suspended)"

definition draft_waiting :: "app_state \<times> coroutine" where
  "draft_waiting =
     (let (s, c) = run_agent_workflow draft_runtime ''t0'' ''m1'' demo_email init_state;
          (s1, c1) = resume draft_runtime ''t0'' False ''m1'' demo_email c s
      in resume draft_runtime ''t1'' False ''m1'' demo_email c1 s1)"

definition one_decision :: app_state where
  "one_decision = websocket_receive ''t2'' (human_decision ''m1'' ''approve'' None) (fst draft_waiting)"

definition two_decisions :: app_state where
  "two_decisions = websocket_receive ''t3'' (human_decision ''m1'' ''deny'' None) one_decision"

text \<open>
  The notification of \<open>m1\<close> answered with \<^verbatim>\<open>respond\<close>; its draft answered with an edit; the
  event of \<open>m1\<close> set with no decision stored; a pipeline whose first stage raises.
\<close>

definition respond_received :: app_state where
  "respond_received =
     run_scheduled (websocket_receive ''t2'' (human_decision ''m1'' ''respond'' None) (fst notify_waiting))"

definition edit_received :: app_state where
  "edit_received =
     run_scheduled
       (websocket_receive ''t2'' (human_decision ''m1'' ''edit'' (Some ''New body'')) (fst draft_waiting))"

definition stray_signal :: app_state where
  "stray_signal = (fst notify_waiting)\<lparr> events := (events (fst notify_waiting))(0 := True) \<rparr>"

definition failing_runtime :: runtime where
  "failing_runtime = notify_runtime\<lparr> agent_invoke := (\<lambda>d w. Inl (Raised ''boom'')) \<rparr>"

text \<open>
  A poller that has counted three failed callbacks; a mailbox whose listing raises, an
  empty one, and one with two new messages; a callback that accepts every email, and one
  that raises on the email \<open>b\<close>.
\<close>

definition stalled_poller :: poller where
  "stalled_poller = \<lparr> processed_ids = {}, running = True, consecutive_errors = 3, actions = [] \<rparr>"

definition unreachable_gmail :: gmail where
  "unreachable_gmail =
     \<lparr> list_unread = Inl (Raised ''HttpError''), get_raw = (\<lambda>i. Inr i),
       parse_message = (\<lambda>raw. Some \<lparr> mail_id = raw, mail_fields = [] \<rparr>) \<rparr>"

definition empty_gmail :: gmail where
  "empty_gmail = unreachable_gmail\<lparr> list_unread := Inr [] \<rparr>"

definition two_mail_gmail :: gmail where
  "two_mail_gmail = unreachable_gmail\<lparr> list_unread := Inr [''a'', ''b''] \<rparr>"

definition accepting_callback :: "mail \<Rightarrow> exn option" where
  "accepting_callback m = None"

definition picky_callback :: "mail \<Rightarrow> exn option" where
  "picky_callback m = (if mail_id m = ''b'' then Some (Raised ''loop is closed'') else None)"

section \<open>Effects of the registry operations\<close>

lemmas workflow_defs =
  run_agent_workflow_def phase1_def workflow_boundary_def resume_def approval_section_def
  after_notification_def after_approval_def execute_and_update_def apply_edit_def
  draft_approval_data_def save_interaction_def store_and_broadcast_def register_def
  new_event_def broadcast_message_def websocket_receive_def run_scheduled_def
  dict_get_def on_ok_def Let_def

lemmas sample_defs =
  init_state_def demo_email_def demo_action_def notify_runtime_def draft_runtime_def
  human_decision_def notify_registered_def notify_suspended_def notify_waiting_def
  timeout_run_def second_run_def
  draft_waiting_def one_decision_def two_decisions_def respond_received_def edit_received_def
  stray_signal_def failing_runtime_def

lemma broadcast_message_fields [simp]:
  "pending_approvals (broadcast_message m s) = pending_approvals s"
  "approval_events (broadcast_message m s) = approval_events s"
  "approval_decisions (broadcast_message m s) = approval_decisions s"
  "background_loop (broadcast_message m s) = background_loop s"
  "events (broadcast_message m s) = events s"
  "next_event (broadcast_message m s) = next_event s"
  "scheduled (broadcast_message m s) = scheduled s"
  "broadcasts (broadcast_message m s) = broadcasts s @ [m]"
  "memory_rows (broadcast_message m s) = memory_rows s"
  "calls (broadcast_message m s) = calls s"
  by (simp_all add: broadcast_message_def Let_def)

lemma register_fields [simp]:
  "pending_approvals (register w a s) = (pending_approvals s)(w \<mapsto> a)"
  "approval_events (register w a s) = (approval_events s)(w \<mapsto> next_event s)"
  "approval_decisions (register w a s) = approval_decisions s"
  "background_loop (register w a s) = background_loop s"
  "events (register w a s) = (events s)(next_event s := False)"
  "next_event (register w a s) = Suc (next_event s)"
  "scheduled (register w a s) = scheduled s"
  "broadcasts (register w a s) = broadcasts s"
  "memory_rows (register w a s) = memory_rows s"
  "calls (register w a s) = calls s"
  by (simp_all add: register_def new_event_def Let_def)

lemma set_all_events: "foldl (\<lambda>f e. f(e := True)) f es = (\<lambda>x. f x \<or> x \<in> set es)"
  by (induction es arbitrary: f) (auto simp: fun_eq_iff)

lemma run_scheduled_fields [simp]:
  "pending_approvals (run_scheduled s) = pending_approvals s"
  "approval_events (run_scheduled s) = approval_events s"
  "approval_decisions (run_scheduled s) = approval_decisions s"
  "background_loop (run_scheduled s) = background_loop s"
  "events (run_scheduled s) = (\<lambda>x. events s x \<or> x \<in> set (scheduled s))"
  "next_event (run_scheduled s) = next_event s"
  "scheduled (run_scheduled s) = []"
  "broadcasts (run_scheduled s) = broadcasts s"
  "memory_rows (run_scheduled s) = memory_rows s"
  "calls (run_scheduled s) = calls s"
  by (simp_all add: run_scheduled_def set_all_events)

lemma websocket_receive_fields:
  assumes "msg_type m = ''human_decision''"
  shows
  "pending_approvals (websocket_receive now m s) = (pending_approvals s)(msg_workflow_id m := None)"
  "approval_events (websocket_receive now m s) = approval_events s"
  "approval_decisions (websocket_receive now m s)
     = (approval_decisions s)(msg_workflow_id m \<mapsto> decision_record now m)"
  "background_loop (websocket_receive now m s) = background_loop s"
  "next_event (websocket_receive now m s) = next_event s"
  "broadcasts (websocket_receive now m s)
     = broadcasts s @ [decision_recorded (msg_workflow_id m) (msg_decision m)]"
  "memory_rows (websocket_receive now m s) = memory_rows s"
  "calls (websocket_receive now m s) = calls s"
  "events (websocket_receive now m s) =
     (case approval_events s (msg_workflow_id m) of
        None \<Rightarrow> events s
      | Some e \<Rightarrow> if background_loop s then events s else (events s)(e := True))"
  "scheduled (websocket_receive now m s) =
     (case approval_events s (msg_workflow_id m) of
        None \<Rightarrow> scheduled s
      | Some e \<Rightarrow> if background_loop s then scheduled s @ [e] else scheduled s)"
  using assms
  by (simp_all add: websocket_receive_def Let_def split: option.split)

lemma human_decision_fields [simp]:
  "msg_type (human_decision w d c) = ''human_decision''"
  "msg_workflow_id (human_decision w d c) = w"
  "msg_decision (human_decision w d c) = d"
  "msg_edited_content (human_decision w d c) = c"
  by (simp_all add: human_decision_def)

lemma decision_signals_event:
  assumes "approval_events s w = Some e"
  shows "events (run_scheduled (websocket_receive now (human_decision w d c) s)) e"
  using assms by (simp add: websocket_receive_fields)

lemma decision_is_stored:
  "approval_decisions (run_scheduled (websocket_receive now (human_decision w d c) s)) w
     = Some (decision_record now (human_decision w d c))"
  by (simp add: websocket_receive_fields)

text \<open>Leaving \<open>Broadcasting\<close> completes the "Store and broadcast" block.\<close>

lemma broadcasting_completes:
  "resume rt now el w email (Broadcasting fl a r) (register w a s)
     = (store_and_broadcast w a s, Suspended fl r)"
  by (simp add: resume_def store_and_broadcast_def)

text \<open>The sample runs, evaluated.\<close>

lemma notify_registered_eval:
  "snd notify_registered
     = Broadcasting Notify (notification_data ''t0'' ''m1'' demo_email)
         [(''triage_decision'', PStr ''notify_human''), (''pending_action'', PNone)]"
  "broadcasts (fst notify_registered) = [triage_complete ''m1'' (PStr ''notify_human'') (PStr '''')]"
  by (simp_all add: workflow_defs sample_defs)

lemma take_chars_ascii:
  assumes "\<forall>c \<in> set s. \<not> continuation c"
  shows "take_chars n s = take n s"
  using assms
proof (induction n arbitrary: s)
  case 0
  then show ?case by simp
next
  case (Suc n)
  then show ?case
  proof (cases s)
    case Nil
    then show ?thesis by simp
  next
    case (Cons c cs)
    with Suc.prems have "takeWhile continuation cs = []" "dropWhile continuation cs = cs"
      by (cases cs; simp)+
    with Cons Suc show ?thesis by simp
  qed
qed

lemma notify_suspended_eval:
  "snd notify_suspended
     = Suspended Notify [(''triage_decision'', PStr ''notify_human''), (''pending_action'', PNone)]"
  "pending_approvals (fst notify_suspended) ''m1'' = Some (notification_data ''t0'' ''m1'' demo_email)"
  "approval_events (fst notify_suspended) ''m1'' = Some 0"
  "approval_decisions (fst notify_suspended) ''m1'' = None"
  "events (fst notify_suspended) 0 = False"
  "next_event (fst notify_suspended) = 1"
  by (simp_all add: workflow_defs sample_defs)

lemma notify_waiting_eval:
  "notify_waiting
     = (fst notify_suspended,
        Waiting Notify 0 [(''triage_decision'', PStr ''notify_human''), (''pending_action'', PNone)])"
  by (simp add: notify_waiting_def resume_def workflow_boundary_def notify_suspended_eval)

lemma draft_waiting_eval:
  "snd draft_waiting
     = Waiting Draft 0 [(''triage_decision'', PStr ''respond''), (''requires_approval'', PBool True),
                        (''pending_action'', demo_action)]"
  "pending_approvals (fst draft_waiting) ''m1'' \<noteq> None"
  "approval_events (fst draft_waiting) ''m1'' = Some 0"
  "approval_decisions (fst draft_waiting) ''m1'' = None"
  "events (fst draft_waiting) 0 = False"
  "background_loop (fst draft_waiting) = False"
  by (simp_all add: workflow_defs sample_defs)

section \<open>Where a step of the coroutine can end\<close>

lemma approval_section_cases:
  assumes "approval_section rt now w r s = Inr (s', c)"
  shows "(\<exists>a. s' = register w a s \<and> c = Broadcasting Draft a r) \<or> c = Finished AutoApproved"
  using assms by (auto simp: approval_section_def split: if_splits sum.splits)

lemma execute_and_update_cases:
  assumes "execute_and_update rt w d st s = (s', c)"
  shows "c = Finished Failed \<or> c = Finished Executed"
  using assms by (auto simp: execute_and_update_def Let_def split: sum.splits)

lemma phase1_cases:
  assumes "phase1 rt now w email s = Inr (s', c)"
  shows "(\<exists>a sx fl r. s' = register w a sx \<and> c = Broadcasting fl a r) \<or> c = Finished AutoApproved"
  using assms
  by (auto simp: phase1_def Let_def split: sum.splits if_splits dest!: approval_section_cases)

lemma after_notification_cases:
  assumes "after_notification rt now w email r s = Inr (s', c)"
  shows "(\<exists>a sx r'. s' = register w a sx \<and> c = Broadcasting Draft a r')
         \<or> c = Finished AutoApproved \<or> c = Finished Ignored \<or> c = Finished Failed"
  using assms
  by (auto simp: after_notification_def Let_def split: sum.splits if_splits dest!: approval_section_cases)

lemma after_approval_cases:
  assumes "after_approval rt w email r s = Inr (s', c)"
  shows "c = Finished Denied \<or> c = Finished Failed \<or> c = Finished Executed"
  using assms
  by (auto simp: after_approval_def Let_def split: sum.splits if_splits
        dest!: execute_and_update_cases)

lemma workflow_boundary_cases:
  "workflow_boundary rt w seg = (s', c) \<Longrightarrow>
     (\<exists>e sx. seg = Inl (e, sx) \<and> c = Finished Failed) \<or> seg = Inr (s', c)"
  by (auto simp: workflow_boundary_def split: sum.splits prod.splits)

lemma run_broadcasting_registered:
  assumes "run_agent_workflow rt now w email s0 = (s, Broadcasting fl a r)"
  shows "\<exists>sx. s = register w a sx"
  using assms unfolding run_agent_workflow_def
  by (auto dest!: workflow_boundary_cases phase1_cases)

lemma resume_broadcasting_registered:
  assumes "resume rt now el w email c0 s0 = (s, Broadcasting fl a r)"
  shows "\<exists>sx. s = register w a sx"
proof (cases c0)
  case (Broadcasting fl0 a0 r0)
  with assms show ?thesis by (simp add: resume_def)
next
  case (Suspended fl0 r0)
  with assms show ?thesis
    by (auto simp: resume_def split: option.splits dest!: workflow_boundary_cases)
next
  case (Waiting fl0 e0 r0)
  with assms show ?thesis
    by (auto simp: resume_def split: if_splits flavor.splits
          dest!: workflow_boundary_cases after_notification_cases after_approval_cases)
next
  case (Finished out)
  with assms show ?thesis by (simp add: resume_def)
qed

lemma woken_outcome:
  assumes "events s e"
  shows "snd (resume rt now el w email (Waiting fl e r) s) \<noteq> Finished TimedOut
       \<and> snd (resume rt now el w email (Waiting fl e r) s) \<noteq> Waiting fl e r"
proof -
  obtain s' c where sc: "resume rt now el w email (Waiting fl e r) s = (s', c)"
    by (cases "resume rt now el w email (Waiting fl e r) s")
  then have "c \<noteq> Finished TimedOut \<and> c \<noteq> Waiting fl e r"
    using assms
    by (auto simp: resume_def split: flavor.splits
          dest!: workflow_boundary_cases after_notification_cases after_approval_cases)
  with sc show ?thesis by simp
qed

section \<open>The edit\<close>

lemma apply_edit_body:
  assumes "map_of st ''pending_action'' = Some (PDict pa)" and "map_of pa ''args'' = Some (PDict args)"
  shows "\<exists>st'. apply_edit content st = Inr st' \<and> action_body st' = Inr content
               \<and> map_of st' ''human_decision'' = Some (PStr ''edit'')
               \<and> map_of st' ''human_feedback'' = Some (PDict [(''body_content'', content)])"
proof -
  from assms(2) have "pa \<noteq> []" by auto
  with assms show ?thesis
    by (simp add: apply_edit_def action_body_def dict_get_def on_ok_def Let_def)
qed

lemma execute_and_update_calls:
  "\<exists>rest. calls (fst (execute_and_update rt w d st s)) = calls s @ ExecuteAction st # rest"
  by (simp add: execute_and_update_def Let_def split: sum.split)

section \<open>Errors of the pipeline stages\<close>







section \<open>The poller's loop over the emails\<close>



lemma fetch_unread_emails_fields:
  "running (snd (fetch_unread_emails g p)) = running p"
  "consecutive_errors (snd (fetch_unread_emails g p)) = consecutive_errors p"
  "actions (snd (fetch_unread_emails g p)) = actions p"
  by (auto simp: fetch_unread_emails_def split: sum.splits prod.splits)


lemma process_emails_counter:
  "consecutive_errors (process_emails cb ms p) =
     (if \<forall>m \<in> set ms. cb m \<noteq> None then consecutive_errors p + length ms
      else length (takeWhile (\<lambda>m. cb m \<noteq> None) (rev ms)))"
proof (induction ms arbitrary: p)
  case Nil
  then show ?case by simp
next
  case (Cons m ms)
  show ?case
  proof (cases "cb m")
    case None
    then show ?thesis
      by (auto simp: Cons.IH takeWhile_append)
  next
    case (Some e)
    then show ?thesis
      by (auto simp: Cons.IH takeWhile_append)
  qed
qed

section \<open>Timeout of a suspension\<close>

text \<open>
  C1, as the code has it. A workflow waiting on an event that is not set when the 600
  seconds have passed returns with the outcome \<open>TimedOut\<close>: exactly one
  \<^verbatim>\<open>workflow_timeout\<close> message is broadcast, nothing is written to memory and no pipeline
  stage is called. The timeout leaves the registry as it was: the entry of
  \<open>pending_approvals\<close>, the event and the stored decisions are untouched. A decision
  received afterwards is stored (and it is this decision that removes the pending entry),
  and the finished coroutine makes no further step.
\<close>

theorem timeout_law:
  assumes "\<not> events s e"
  shows "let (s1, c1) = resume rt now True workflow_id email (Waiting fl e result) s;
             late = human_decision workflow_id decision edited;
             s2 = websocket_receive now2 late s1
         in c1 = Finished TimedOut
          \<and> broadcasts s1 = broadcasts s @ [workflow_timeout workflow_id]
          \<and> memory_rows s1 = memory_rows s
          \<and> calls s1 = calls s
          \<and> pending_approvals s1 = pending_approvals s
          \<and> approval_events s1 = approval_events s
          \<and> approval_decisions s1 = approval_decisions s
          \<and> events s1 = events s
          \<and> approval_decisions s2 workflow_id = Some (decision_record now2 late)
          \<and> pending_approvals s2 workflow_id = None
          \<and> resume rt now3 elapsed workflow_id email c1 s2 = (s2, c1)"
  using assms
  by (simp add: resume_def Let_def websocket_receive_fields)

text \<open>
  The sample workflow \<open>m1\<close>, waiting on its notification with no decision received, times
  out as the theorem says.
\<close>

theorem timeout_law_witness:
  "\<not> events (fst notify_waiting) 0
   \<and> snd timeout_run = Finished TimedOut
   \<and> broadcasts (fst timeout_run) = broadcasts (fst notify_waiting) @ [workflow_timeout ''m1'']
   \<and> memory_rows (fst timeout_run) = memory_rows (fst notify_waiting)
   \<and> calls (fst timeout_run) = calls (fst notify_waiting)"
proof -
  have h: "\<not> events (fst notify_waiting) 0"
    by (simp add: notify_waiting_eval notify_suspended_eval)
  have w: "snd notify_waiting
             = Waiting Notify 0 [(''triage_decision'', PStr ''notify_human''), (''pending_action'', PNone)]"
    by (simp add: notify_waiting_eval)
  show ?thesis
    using h timeout_law [OF h, where rt = notify_runtime and now = "''t2''" and workflow_id = "''m1''"
        and email = demo_email and fl = Notify
        and result = "[(''triage_decision'', PStr ''notify_human''), (''pending_action'', PNone)]"
        and decision = "''approve''" and edited = None and ?now2.0 = "''t3''"]
    by (simp add: timeout_run_def w Let_def split_def)
qed

text \<open>
  C1 as stated fails: after the timeout of the sample workflow its entry is still in
  \<open>pending_approvals\<close>.
\<close>

theorem timeout_keeps_pending_counterexample:
  "snd timeout_run = Finished TimedOut
   \<and> pending_approvals (fst timeout_run) ''m1'' = Some (notification_data ''t0'' ''m1'' demo_email)"
  by (simp add: timeout_run_def notify_waiting_eval notify_suspended_eval resume_def)

section \<open>Recording a decision\<close>

text \<open>
  C2, as the code has it. Receiving a \<^verbatim>\<open>human_decision\<close> message stores the decision under
  its workflow id, removes that id from \<open>pending_approvals\<close> (in the state that holds the
  stored decision), leaves \<open>approval_events\<close> alone and broadcasts \<^verbatim>\<open>decision_recorded\<close>.
  When an event is registered for the id it is signalled once: set at once without a
  background loop, or submitted once to the background loop, which sets it. A second
  decision for the same id raises nothing, leaves the pending entry absent and the event
  as set as it was (setting a set event changes nothing), but it replaces the stored
  decision and is broadcast again.
\<close>

theorem record_decision_effects:
  assumes "msg_type m = ''human_decision''" and "msg_type m2 = ''human_decision''"
      and "msg_workflow_id m2 = msg_workflow_id m"
  shows "let workflow_id = msg_workflow_id m;
             s1 = websocket_receive now m s;
             s2 = websocket_receive now2 m2 s1
         in approval_decisions s1 = (approval_decisions s)(workflow_id \<mapsto> decision_record now m)
          \<and> pending_approvals s1 = (pending_approvals s)(workflow_id := None)
          \<and> approval_events s1 = approval_events s
          \<and> broadcasts s1 = broadcasts s @ [decision_recorded workflow_id (msg_decision m)]
          \<and> (case approval_events s workflow_id of
                None \<Rightarrow> events s1 = events s \<and> scheduled s1 = scheduled s
              | Some e \<Rightarrow>
                  events (run_scheduled s1) e
                  \<and> (if background_loop s
                     then events s1 = events s \<and> scheduled s1 = scheduled s @ [e]
                     else events s1 = (events s)(e := True) \<and> scheduled s1 = scheduled s))
          \<and> pending_approvals s2 = pending_approvals s1
          \<and> approval_events s2 = approval_events s1
          \<and> events (run_scheduled s2) = events (run_scheduled s1)
          \<and> approval_decisions s2 = (approval_decisions s1)(workflow_id \<mapsto> decision_record now2 m2)
          \<and> broadcasts s2 = broadcasts s1 @ [decision_recorded workflow_id (msg_decision m2)]"
  using assms
  by (auto simp: Let_def websocket_receive_fields fun_eq_iff split: option.split)

text \<open>
  The sample draft approval \<open>m1\<close>: the first decision sets event 0 and removes the pending
  entry; the second replaces the stored decision.
\<close>

theorem record_decision_effects_witness:
  "msg_type (human_decision ''m1'' ''approve'' None) = ''human_decision''
   \<and> approval_decisions one_decision ''m1''
       = Some (decision_record ''t2'' (human_decision ''m1'' ''approve'' None))
   \<and> pending_approvals one_decision ''m1'' = None
   \<and> events one_decision 0
   \<and> pending_approvals two_decisions ''m1'' = None
   \<and> approval_decisions two_decisions ''m1''
       = Some (decision_record ''t3'' (human_decision ''m1'' ''deny'' None))"
  using record_decision_effects [where m = "human_decision ''m1'' ''approve'' None"
      and ?m2.0 = "human_decision ''m1'' ''deny'' None" and now = "''t2''" and ?now2.0 = "''t3''"
      and s = "fst draft_waiting"]
  by (simp add: Let_def one_decision_def two_decisions_def draft_waiting_eval)

text \<open>
  C2 as stated fails: the second decision is not a no-op. It replaces the stored decision,
  and the coroutine, which had been signalled by an approval and not yet run, is resumed
  into the denied outcome instead of the executed one.
\<close>

theorem second_decision_counterexample:
  "approval_decisions two_decisions ''m1'' \<noteq> approval_decisions one_decision ''m1''
   \<and> snd (resume draft_runtime ''t4'' False ''m1'' demo_email (snd draft_waiting) one_decision)
       = Finished Executed
   \<and> snd (resume draft_runtime ''t4'' False ''m1'' demo_email (snd draft_waiting) two_decisions)
       = Finished Denied"
  by (simp add: one_decision_def two_decisions_def draft_waiting_eval websocket_receive_fields
        resume_def after_approval_def workflow_boundary_def execute_and_update_def
        save_interaction_def decision_record_def dict_get_def Let_def draft_runtime_def
        notify_runtime_def)

section \<open>Registering a suspension\<close>

text \<open>
  C5, as the code has it. Registering a suspension for a workflow id that already has an
  entry in \<open>pending_approvals\<close> succeeds: the entry is replaced by the new approval record,
  a fresh, unset event replaces the registered one, no other id is added or removed, and
  the \<^verbatim>\<open>approval_required\<close> message is broadcast. Nothing is raised.
\<close>

theorem register_replaces_entry:
  assumes "pending_approvals s workflow_id = Some old"
  shows "pending_approvals (register workflow_id approval_data s) workflow_id = Some approval_data
       \<and> approval_events (register workflow_id approval_data s) workflow_id = Some (next_event s)
       \<and> \<not> events (register workflow_id approval_data s) (next_event s)
       \<and> dom (pending_approvals (register workflow_id approval_data s)) = dom (pending_approvals s)
       \<and> pending_approvals (store_and_broadcast workflow_id approval_data s) workflow_id
           = Some approval_data
       \<and> broadcasts (store_and_broadcast workflow_id approval_data s)
           = broadcasts s @ [approval_required approval_data]"
  using assms by (auto simp: store_and_broadcast_def)

text \<open>The sample workflow \<open>m1\<close> is suspended; its id is registered a second time.\<close>

theorem register_replaces_entry_witness:
  "pending_approvals (fst notify_suspended) ''m1'' = Some (notification_data ''t0'' ''m1'' demo_email)
   \<and> pending_approvals (register ''m1'' [(''workflow_id'', PStr ''m1'')] (fst notify_suspended)) ''m1''
       = Some [(''workflow_id'', PStr ''m1'')]
   \<and> approval_events (register ''m1'' [(''workflow_id'', PStr ''m1'')] (fst notify_suspended)) ''m1''
       = Some 1"
  using register_replaces_entry [where s = "fst notify_suspended" and workflow_id = "''m1''"
      and old = "notification_data ''t0'' ''m1'' demo_email"
      and approval_data = "[(''workflow_id'', PStr ''m1'')]"]
  by (simp add: notify_suspended_eval)

text \<open>
  C5 as stated fails: the workflow \<open>m1\<close> is run again while its first entry is still
  pending; the run raises nothing, its approval record has replaced the first when the
  broadcast begins, and it is suspended as usual once the broadcast is done.
\<close>

theorem register_existing_counterexample:
  "pending_approvals (fst notify_suspended) ''m1'' = Some (notification_data ''t0'' ''m1'' demo_email)
   \<and> snd second_run
       = Broadcasting Notify (notification_data ''t5'' ''m1'' demo_email)
           [(''triage_decision'', PStr ''notify_human''), (''pending_action'', PNone)]
   \<and> pending_approvals (fst second_run) ''m1'' = Some (notification_data ''t5'' ''m1'' demo_email)
   \<and> snd (resume notify_runtime ''t5'' False ''m1'' demo_email (snd second_run) (fst second_run))
       = Suspended Notify [(''triage_decision'', PStr ''notify_human''), (''pending_action'', PNone)]
   \<and> pending_approvals
        (fst (resume notify_runtime ''t5'' False ''m1'' demo_email (snd second_run) (fst second_run)))
        ''m1''
       = Some (notification_data ''t5'' ''m1'' demo_email)
   \<and> last (broadcasts
        (fst (resume notify_runtime ''t5'' False ''m1'' demo_email (snd second_run) (fst second_run))))
       = approval_required (notification_data ''t5'' ''m1'' demo_email)"
  by (simp add: notify_suspended_eval second_run_def run_agent_workflow_def phase1_def
        workflow_boundary_def resume_def dict_get_def Let_def notify_runtime_def)

section \<open>Registration comes before the broadcast and the wait\<close>

text \<open>
  C3. Whenever a step of the coordinator ends inside the \<^verbatim>\<open>approval_required\<close> broadcast,
  the registry already holds the approval record and an unset event for the workflow id:
  the insertion is complete before the first client can have seen the notification. The
  step that follows completes the broadcast and changes nothing in the registry, and only
  the step after that enters the wait, on that same event. So a decision is never missed,
  at whichever of these moments it is received. Received while the broadcast is still
  under way, it finds the event registered, is stored and sets it; the broadcast then
  completes, the wait is entered on the set event, and the coroutine wakes. Received after
  the broadcast and before the wait, it does the same. In both cases the coroutine can
  neither time out nor keep waiting, whether or not the 600 seconds have passed.
\<close>

theorem decision_after_broadcast_wakes:
  assumes "run_agent_workflow rt now workflow_id email s0 = (s, Broadcasting fl approval_data result)
           \<or> resume rt now elapsed0 workflow_id email c0 s0 = (s, Broadcasting fl approval_data result)"
  shows "\<exists>e.
           pending_approvals s workflow_id = Some approval_data
         \<and> approval_events s workflow_id = Some e
         \<and> \<not> events s e
         \<and> (let (s1, c1) = resume rt now1 elapsed1 workflow_id email
                              (Broadcasting fl approval_data result) s;
                 s2 = run_scheduled (websocket_receive now2 (human_decision workflow_id decision edited) s1)
             in c1 = Suspended fl result
              \<and> broadcasts s1 = broadcasts s @ [approval_required approval_data]
              \<and> last (broadcasts s1) = approval_required approval_data
              \<and> pending_approvals s1 workflow_id = Some approval_data
              \<and> approval_events s1 workflow_id = Some e
              \<and> \<not> events s1 e
              \<and> resume rt now1 elapsed1 workflow_id email (Suspended fl result) s1
                  = (s1, Waiting fl e result)
              \<and> approval_decisions s2 workflow_id
                  = Some (decision_record now2 (human_decision workflow_id decision edited))
              \<and> events s2 e
              \<and> resume rt now1 elapsed1 workflow_id email (Suspended fl result) s2
                  = (s2, Waiting fl e result)
              \<and> snd (resume rt now3 elapsed workflow_id email (Waiting fl e result) s2)
                  \<noteq> Finished TimedOut
              \<and> snd (resume rt now3 elapsed workflow_id email (Waiting fl e result) s2)
                  \<noteq> Waiting fl e result)
         \<and> (let sd = run_scheduled (websocket_receive now2 (human_decision workflow_id decision edited) s);
                 (s1, c1) = resume rt now1 elapsed1 workflow_id email
                              (Broadcasting fl approval_data result) sd;
                 (s2, c2) = resume rt now1 elapsed1 workflow_id email c1 s1
             in approval_decisions sd workflow_id
                  = Some (decision_record now2 (human_decision workflow_id decision edited))
              \<and> events sd e
              \<and> c1 = Suspended fl result
              \<and> last (broadcasts s1) = approval_required approval_data
              \<and> c2 = Waiting fl e result
              \<and> events s2 e
              \<and> snd (resume rt now3 elapsed workflow_id email c2 s2) \<noteq> Finished TimedOut
              \<and> snd (resume rt now3 elapsed workflow_id email c2 s2) \<noteq> Waiting fl e result)"
proof -
  have "\<exists>sx. s = register workflow_id approval_data sx"
    using assms
  proof
    assume "run_agent_workflow rt now workflow_id email s0 = (s, Broadcasting fl approval_data result)"
    then show ?thesis by (rule run_broadcasting_registered)
  next
    assume "resume rt now elapsed0 workflow_id email c0 s0 = (s, Broadcasting fl approval_data result)"
    then show ?thesis by (rule resume_broadcasting_registered)
  qed
  then obtain sx where s: "s = register workflow_id approval_data sx"
    by blast
  let ?e = "next_event sx"
  let ?m = "human_decision workflow_id decision edited"
  let ?s1 = "broadcast_message (approval_required approval_data) s"
  let ?s2 = "run_scheduled (websocket_receive now2 ?m ?s1)"
  let ?sd = "run_scheduled (websocket_receive now2 ?m s)"
  let ?sd1 = "broadcast_message (approval_required approval_data) ?sd"
  have reg: "pending_approvals s workflow_id = Some approval_data"
      "approval_events s workflow_id = Some ?e" "\<not> events s ?e"
    by (simp_all add: s)
  have step: "\<And>st. resume rt now1 elapsed1 workflow_id email (Broadcasting fl approval_data result) st
                = (broadcast_message (approval_required approval_data) st, Suspended fl result)"
    by (simp add: resume_def)
  have reg1: "broadcasts ?s1 = broadcasts s @ [approval_required approval_data]"
      "last (broadcasts ?s1) = approval_required approval_data"
      "pending_approvals ?s1 workflow_id = Some approval_data"
      "approval_events ?s1 workflow_id = Some ?e" "\<not> events ?s1 ?e"
    using reg by simp_all
  have enter: "\<And>st. approval_events st workflow_id = Some ?e \<Longrightarrow>
                 resume rt now1 elapsed1 workflow_id email (Suspended fl result) st
                   = (st, Waiting fl ?e result)"
    by (simp add: resume_def workflow_boundary_def)
  have ev2: "events ?s2 ?e"
    by (rule decision_signals_event[OF reg1(4)])
  have stored2: "approval_decisions ?s2 workflow_id = Some (decision_record now2 ?m)"
    by (rule decision_is_stored)
  have ae2: "approval_events ?s2 workflow_id = Some ?e"
    using reg1(4) by (simp add: websocket_receive_fields)
  have after: "c1 = Suspended fl result
              \<and> broadcasts s1 = broadcasts s @ [approval_required approval_data]
              \<and> last (broadcasts s1) = approval_required approval_data
              \<and> pending_approvals s1 workflow_id = Some approval_data
              \<and> approval_events s1 workflow_id = Some ?e
              \<and> \<not> events s1 ?e
              \<and> resume rt now1 elapsed1 workflow_id email (Suspended fl result) s1
                  = (s1, Waiting fl ?e result)
              \<and> approval_decisions (run_scheduled (websocket_receive now2 ?m s1)) workflow_id
                  = Some (decision_record now2 ?m)
              \<and> events (run_scheduled (websocket_receive now2 ?m s1)) ?e
              \<and> resume rt now1 elapsed1 workflow_id email (Suspended fl result)
                    (run_scheduled (websocket_receive now2 ?m s1))
                  = (run_scheduled (websocket_receive now2 ?m s1), Waiting fl ?e result)
              \<and> snd (resume rt now3 elapsed workflow_id email (Waiting fl ?e result)
                        (run_scheduled (websocket_receive now2 ?m s1)))
                  \<noteq> Finished TimedOut
              \<and> snd (resume rt now3 elapsed workflow_id email (Waiting fl ?e result)
                        (run_scheduled (websocket_receive now2 ?m s1)))
                  \<noteq> Waiting fl ?e result"
    if "resume rt now1 elapsed1 workflow_id email (Broadcasting fl approval_data result) s = (s1, c1)"
    for s1 c1
  proof -
    from that step have eq: "s1 = ?s1" "c1 = Suspended fl result" by simp_all
    show ?thesis
      unfolding eq
      using reg1 enter[OF reg1(4)] stored2 ev2 enter[OF ae2] woken_outcome[OF ev2]
      by blast
  qed
  have evd: "events ?sd ?e"
    by (rule decision_signals_event[OF reg(2)])
  have storedd: "approval_decisions ?sd workflow_id = Some (decision_record now2 ?m)"
    by (rule decision_is_stored)
  have aed: "approval_events ?sd1 workflow_id = Some ?e"
    using reg(2) by (simp add: websocket_receive_fields)
  have evd1: "events ?sd1 ?e" "last (broadcasts ?sd1) = approval_required approval_data"
    using evd by simp_all
  have during: "approval_decisions ?sd workflow_id = Some (decision_record now2 ?m)
              \<and> events ?sd ?e
              \<and> c1 = Suspended fl result
              \<and> last (broadcasts s1) = approval_required approval_data
              \<and> c2 = Waiting fl ?e result
              \<and> events s2 ?e
              \<and> snd (resume rt now3 elapsed workflow_id email c2 s2) \<noteq> Finished TimedOut
              \<and> snd (resume rt now3 elapsed workflow_id email c2 s2) \<noteq> Waiting fl ?e result"
    if "resume rt now1 elapsed1 workflow_id email (Broadcasting fl approval_data result) ?sd = (s1, c1)"
      and "resume rt now1 elapsed1 workflow_id email c1 s1 = (s2, c2)"
    for s1 c1 s2 c2
  proof -
    from that(1) step have eq1: "s1 = ?sd1" "c1 = Suspended fl result" by simp_all
    from that(2) enter[OF aed] have eq2: "s2 = ?sd1" "c2 = Waiting fl ?e result"
      unfolding eq1 by simp_all
    show ?thesis
      unfolding eq1 eq2
      using storedd evd evd1 woken_outcome[OF evd1(1)]
      by blast
  qed
  show ?thesis
  proof (intro exI[of _ ?e] conjI)
    show "pending_approvals s workflow_id = Some approval_data" by (rule reg(1))
    show "approval_events s workflow_id = Some ?e" by (rule reg(2))
    show "\<not> events s ?e" by (rule reg(3))
    show "let (s1, c1) = resume rt now1 elapsed1 workflow_id email
                              (Broadcasting fl approval_data result) s;
                 s2 = run_scheduled (websocket_receive now2 ?m s1)
             in c1 = Suspended fl result
              \<and> broadcasts s1 = broadcasts s @ [approval_required approval_data]
              \<and> last (broadcasts s1) = approval_required approval_data
              \<and> pending_approvals s1 workflow_id = Some approval_data
              \<and> approval_events s1 workflow_id = Some ?e
              \<and> \<not> events s1 ?e
              \<and> resume rt now1 elapsed1 workflow_id email (Suspended fl result) s1
                  = (s1, Waiting fl ?e result)
              \<and> approval_decisions s2 workflow_id = Some (decision_record now2 ?m)
              \<and> events s2 ?e
              \<and> resume rt now1 elapsed1 workflow_id email (Suspended fl result) s2
                  = (s2, Waiting fl ?e result)
              \<and> snd (resume rt now3 elapsed workflow_id email (Waiting fl ?e result) s2)
                  \<noteq> Finished TimedOut
              \<and> snd (resume rt now3 elapsed workflow_id email (Waiting fl ?e result) s2)
                  \<noteq> Waiting fl ?e result"
      unfolding Let_def using after by (auto split: prod.splits)
    show "let sd = run_scheduled (websocket_receive now2 ?m s);
                 (s1, c1) = resume rt now1 elapsed1 workflow_id email
                              (Broadcasting fl approval_data result) sd;
                 (s2, c2) = resume rt now1 elapsed1 workflow_id email c1 s1
             in approval_decisions sd workflow_id = Some (decision_record now2 ?m)
              \<and> events sd ?e
              \<and> c1 = Suspended fl result
              \<and> last (broadcasts s1) = approval_required approval_data
              \<and> c2 = Waiting fl ?e result
              \<and> events s2 ?e
              \<and> snd (resume rt now3 elapsed workflow_id email c2 s2) \<noteq> Finished TimedOut
              \<and> snd (resume rt now3 elapsed workflow_id email c2 s2) \<noteq> Waiting fl ?e result"
      unfolding Let_def using during by (auto split: prod.splits)
  qed
qed

text \<open>
  The sample workflow \<open>m1\<close>, registered and broadcasting its notification: an \<^verbatim>\<open>ignore\<close>
  received while the broadcast is under way wakes it, though the 600 seconds have passed.
\<close>

theorem decision_after_broadcast_wakes_witness:
  "run_agent_workflow notify_runtime ''t0'' ''m1'' demo_email init_state
     = (fst notify_registered,
        Broadcasting Notify (notification_data ''t0'' ''m1'' demo_email)
          [(''triage_decision'', PStr ''notify_human''), (''pending_action'', PNone)])
   \<and> broadcasts (fst notify_registered)
       = [triage_complete ''m1'' (PStr ''notify_human'') (PStr '''')]
   \<and> (\<exists>e. pending_approvals (fst notify_registered) ''m1''
              = Some (notification_data ''t0'' ''m1'' demo_email)
          \<and> approval_events (fst notify_registered) ''m1'' = Some e
          \<and> \<not> events (fst notify_registered) e
          \<and> (let sd = run_scheduled
                         (websocket_receive ''t2'' (human_decision ''m1'' ''ignore'' None)
                            (fst notify_registered));
                  (s1, c1) = resume notify_runtime ''t1'' False ''m1'' demo_email
                               (Broadcasting Notify (notification_data ''t0'' ''m1'' demo_email)
                                  [(''triage_decision'', PStr ''notify_human''),
                                   (''pending_action'', PNone)]) sd;
                  (s2, c2) = resume notify_runtime ''t1'' False ''m1'' demo_email c1 s1
              in events sd e
               \<and> c2 = Waiting Notify e [(''triage_decision'', PStr ''notify_human''),
                                         (''pending_action'', PNone)]
               \<and> snd (resume notify_runtime ''t3'' True ''m1'' demo_email c2 s2)
                   \<noteq> Finished TimedOut))"
proof -
  let ?r = "[(''triage_decision'', PStr ''notify_human''), (''pending_action'', PNone)]"
  have run: "run_agent_workflow notify_runtime ''t0'' ''m1'' demo_email init_state
     = (fst notify_registered, Broadcasting Notify (notification_data ''t0'' ''m1'' demo_email) ?r)"
    using notify_registered_eval(1) by (simp add: notify_registered_def prod_eq_iff)
  have log: "broadcasts (fst notify_registered)
               = [triage_complete ''m1'' (PStr ''notify_human'') (PStr '''')]"
    by (rule notify_registered_eval(2))
  from decision_after_broadcast_wakes [OF disjI1, OF run, where ?now2.0 = "''t2''"
      and decision = "''ignore''" and edited = None and ?now3.0 = "''t3''" and elapsed = True
      and ?now1.0 = "''t1''" and ?elapsed1.0 = False]
  obtain e where e: "pending_approvals (fst notify_registered) ''m1''
              = Some (notification_data ''t0'' ''m1'' demo_email)"
      "approval_events (fst notify_registered) ''m1'' = Some e"
      "\<not> events (fst notify_registered) e"
      "let sd = run_scheduled
                         (websocket_receive ''t2'' (human_decision ''m1'' ''ignore'' None)
                            (fst notify_registered));
                  (s1, c1) = resume notify_runtime ''t1'' False ''m1'' demo_email
                               (Broadcasting Notify (notification_data ''t0'' ''m1'' demo_email) ?r) sd;
                  (s2, c2) = resume notify_runtime ''t1'' False ''m1'' demo_email c1 s1
              in approval_decisions sd ''m1''
                   = Some (decision_record ''t2'' (human_decision ''m1'' ''ignore'' None))
               \<and> events sd e
               \<and> c1 = Suspended Notify ?r
               \<and> last (broadcasts s1)
                   = approval_required (notification_data ''t0'' ''m1'' demo_email)
               \<and> c2 = Waiting Notify e ?r
               \<and> events s2 e
               \<and> snd (resume notify_runtime ''t3'' True ''m1'' demo_email c2 s2) \<noteq> Finished TimedOut
               \<and> snd (resume notify_runtime ''t3'' True ''m1'' demo_email c2 s2) \<noteq> Waiting Notify e ?r"
    by blast
  from e(4) have "let sd = run_scheduled
                         (websocket_receive ''t2'' (human_decision ''m1'' ''ignore'' None)
                            (fst notify_registered));
                  (s1, c1) = resume notify_runtime ''t1'' False ''m1'' demo_email
                               (Broadcasting Notify (notification_data ''t0'' ''m1'' demo_email) ?r) sd;
                  (s2, c2) = resume notify_runtime ''t1'' False ''m1'' demo_email c1 s1
              in events sd e
               \<and> c2 = Waiting Notify e ?r
               \<and> snd (resume notify_runtime ''t3'' True ''m1'' demo_email c2 s2) \<noteq> Finished TimedOut"
    unfolding Let_def by (auto split: prod.splits)
  with run log e(1,2,3) show ?thesis by blast
qed

section \<open>Responding to a notification\<close>

text \<open>
  C4. A workflow waiting on its notification (event \<open>e\<close>) receives the decision
  \<^verbatim>\<open>respond\<close>. When the draft stage returns and the approval record can be built from the
  merged state, the step calls \<^verbatim>\<open>react_agent_node\<close> and no other stage and ends inside the
  broadcast of the draft's record, with the registry already updated: the pending entry of
  the id, which the decision had removed, is stored again with the draft's record, and
  the id is given a fresh event, different from \<open>e\<close> and not set. The step after it
  completes the broadcast and leaves the workflow suspended (not finished) on the draft.
  The next step waits on the fresh event, and the coroutine stays there for as long as
  that event is not set and the wait has not timed out.
\<close>

theorem respond_resuspends:
  assumes "approval_events s0 workflow_id = Some e" and "e < next_event s0"
      and "s = run_scheduled (websocket_receive now1 (human_decision workflow_id ''respond'' edited) s0)"
      and "react_agent_node rt (email_data_for_draft email result) = Inr draft_result"
      and "draft_approval_data rt now workflow_id
             ((''requires_approval'', PBool True) # draft_result @ result) = Inr approval_data"
  shows "let merged = (''requires_approval'', PBool True) # draft_result @ result;
             (sr, cr) = resume rt now elapsed workflow_id email (Waiting Notify e result) s;
             (s1, c1) = resume rt now4 elapsed4 workflow_id email cr sr;
             e2 = next_event s
         in cr = Broadcasting Draft approval_data merged
          \<and> calls sr = calls s @ [ReactAgent (email_data_for_draft email result)]
          \<and> pending_approvals sr = (pending_approvals s)(workflow_id \<mapsto> approval_data)
          \<and> approval_events sr = (approval_events s)(workflow_id \<mapsto> e2)
          \<and> \<not> events sr e2
          \<and> broadcasts sr = broadcasts s
          \<and> calls s1 = calls s @ [ReactAgent (email_data_for_draft email result)]
          \<and> c1 = Suspended Draft merged
          \<and> pending_approvals s workflow_id = None
          \<and> pending_approvals s1 = (pending_approvals s)(workflow_id \<mapsto> approval_data)
          \<and> approval_events s1 = (approval_events s)(workflow_id \<mapsto> e2)
          \<and> e2 \<noteq> e \<and> events s1 e \<and> \<not> events s1 e2
          \<and> last (broadcasts s1) = approval_required approval_data
          \<and> resume rt now2 elapsed2 workflow_id email c1 s1 = (s1, Waiting Draft e2 merged)
          \<and> resume rt now3 False workflow_id email (Waiting Draft e2 merged) s1
              = (s1, Waiting Draft e2 merged)"
proof -
  let ?merged = "(''requires_approval'', PBool True) # draft_result @ result"
  let ?s' = "s\<lparr> calls := calls s @ [ReactAgent (email_data_for_draft email result)] \<rparr>"
  have ev: "events s e"
    unfolding assms(3) by (rule decision_signals_event[OF assms(1)])
  have dec: "approval_decisions s workflow_id
               = Some (decision_record now1 (human_decision workflow_id ''respond'' edited))"
    unfolding assms(3) by (rule decision_is_stored)
  have gone: "pending_approvals s workflow_id = None"
    unfolding assms(3) by (simp add: websocket_receive_fields)
  have nxt: "next_event s = next_event s0"
    unfolding assms(3) by (simp add: websocket_receive_fields)
  let ?sr = "register workflow_id approval_data ?s'"
  have step: "resume rt now elapsed workflow_id email (Waiting Notify e result) s
                = (?sr, Broadcasting Draft approval_data ?merged)"
    using ev dec assms(4,5)
    by (simp add: resume_def after_notification_def approval_section_def workflow_boundary_def
          decision_record_def dict_get_def Let_def)
  let ?s1 = "store_and_broadcast workflow_id approval_data ?s'"
  have step2: "resume rt now4 elapsed4 workflow_id email (Broadcasting Draft approval_data ?merged) ?sr
                 = (?s1, Suspended Draft ?merged)"
    by (simp add: resume_def store_and_broadcast_def)
  have enter: "resume rt now2 elapsed2 workflow_id email (Suspended Draft ?merged) ?s1
                 = (?s1, Waiting Draft (next_event s) ?merged)"
    by (simp add: resume_def workflow_boundary_def store_and_broadcast_def)
  have stay: "resume rt now3 False workflow_id email (Waiting Draft (next_event s) ?merged) ?s1
                = (?s1, Waiting Draft (next_event s) ?merged)"
    by (simp add: resume_def store_and_broadcast_def)
  have fresh: "next_event s \<noteq> e"
    using assms(2) nxt by simp
  have before: "calls ?sr = calls s @ [ReactAgent (email_data_for_draft email result)]"
      "pending_approvals ?sr = (pending_approvals s)(workflow_id \<mapsto> approval_data)"
      "approval_events ?sr = (approval_events s)(workflow_id \<mapsto> next_event s)"
      "\<not> events ?sr (next_event s)"
      "broadcasts ?sr = broadcasts s"
    by simp_all
  have fields: "calls ?s1 = calls s @ [ReactAgent (email_data_for_draft email result)]"
      "pending_approvals ?s1 = (pending_approvals s)(workflow_id \<mapsto> approval_data)"
      "approval_events ?s1 = (approval_events s)(workflow_id \<mapsto> next_event s)"
      "events ?s1 e" "\<not> events ?s1 (next_event s)"
      "last (broadcasts ?s1) = approval_required approval_data"
    using ev fresh by (simp_all add: store_and_broadcast_def)
  show ?thesis
    unfolding Let_def step prod.case step2
    using gone fresh before fields enter stay by blast
qed

text \<open>
  The sample notification \<open>m1\<close>, answered with \<^verbatim>\<open>respond\<close>: the draft of \<open>demo_action\<close> is
  registered under \<open>m1\<close> with event 1, and the workflow is suspended again.
\<close>

theorem respond_resuspends_witness:
  "approval_events (fst notify_waiting) ''m1'' = Some 0
   \<and> 0 < next_event (fst notify_waiting)
   \<and> (let (sr, cr) = resume notify_runtime ''t3'' False ''m1'' demo_email
                       (Waiting Notify 0 [(''triage_decision'', PStr ''notify_human''),
                                          (''pending_action'', PNone)])
                       respond_received;
           (s1, c1) = resume notify_runtime ''t4'' False ''m1'' demo_email cr sr
       in c1 = Suspended Draft
                 ((''requires_approval'', PBool True) # [(''pending_action'', demo_action)]
                  @ [(''triage_decision'', PStr ''notify_human''), (''pending_action'', PNone)])
        \<and> approval_events sr ''m1'' = Some 1
        \<and> approval_events s1 ''m1'' = Some 1
        \<and> pending_approvals s1 ''m1''
            = Some [(''workflow_id'', PStr ''m1''), (''action_type'', PStr ''send_email''),
                    (''recipient'', PStr ''customer@example.com''),
                    (''subject'', PStr ''Re: Refund request''),
                    (''body'', PStr ''Dear customer...''), (''draft_preview'', PStr ''''),
                    (''timestamp'', PStr ''t3''), (''notification_type'', PBool False)])"
proof -
  let ?r = "[(''triage_decision'', PStr ''notify_human''), (''pending_action'', PNone)]"
  have h1: "approval_events (fst notify_waiting) ''m1'' = Some 0"
    by (simp add: notify_waiting_eval notify_suspended_eval)
  have h2: "0 < next_event (fst notify_waiting)"
    by (simp add: notify_waiting_eval notify_suspended_eval)
  have h4: "react_agent_node notify_runtime (email_data_for_draft demo_email ?r)
              = Inr [(''pending_action'', demo_action)]"
    by (simp add: notify_runtime_def)
  have h5: "draft_approval_data notify_runtime ''t3'' ''m1''
              ((''requires_approval'', PBool True) # [(''pending_action'', demo_action)] @ ?r)
            = Inr [(''workflow_id'', PStr ''m1''), (''action_type'', PStr ''send_email''),
               (''recipient'', PStr ''customer@example.com''), (''subject'', PStr ''Re: Refund request''),
               (''body'', PStr ''Dear customer...''), (''draft_preview'', PStr ''''),
               (''timestamp'', PStr ''t3''), (''notification_type'', PBool False)]"
    by (simp add: draft_approval_data_def demo_action_def dict_get_def on_ok_def)
  have nxt: "next_event respond_received = 1"
    by (simp add: respond_received_def websocket_receive_fields notify_waiting_eval notify_suspended_eval)
  show ?thesis
    using h1 h2 nxt
      respond_resuspends [OF h1 h2 respond_received_def h4 h5, where elapsed = False
        and ?now4.0 = "''t4''" and ?elapsed4.0 = False and ?now2.0 = "''t5''"
        and ?elapsed2.0 = False and ?now3.0 = "''t6''"]
    unfolding Let_def split_def
    apply (elim conjE)
    apply (intro conjI)
    apply simp_all
    done
qed

section \<open>Editing a draft\<close>

text \<open>
  C9. A workflow waiting on a draft approval (event \<open>e\<close>) receives the decision \<^verbatim>\<open>edit\<close>
  with non-empty edited content, and its state holds a pending action with its arguments.
  Then the step calls the execution stage, and the state it passes has the edited content
  as \<^verbatim>\<open>pending_action["args"]["body"]\<close> and \<^verbatim>\<open>edit\<close> as the human decision.
\<close>

theorem edit_substitutes_body:
  assumes "approval_events s0 workflow_id = Some e"
      and "s = run_scheduled (websocket_receive now1 (human_decision workflow_id ''edit'' (Some content)) s0)"
      and "content \<noteq> []"
      and "map_of result ''pending_action'' = Some (PDict pending_action)"
      and "map_of pending_action ''args'' = Some (PDict args)"
  shows "\<exists>updated_state rest.
           calls (fst (resume rt now elapsed workflow_id email (Waiting Draft e result) s))
             = calls s @ ExecuteAction updated_state # rest
         \<and> action_body updated_state = Inr (PStr content)
         \<and> map_of updated_state ''human_decision'' = Some (PStr ''edit'')"
proof -
  have ev: "events s e"
    unfolding assms(2) by (rule decision_signals_event[OF assms(1)])
  have dec: "approval_decisions s workflow_id
               = Some (decision_record now1 (human_decision workflow_id ''edit'' (Some content)))"
    unfolding assms(2) by (rule decision_is_stored)
  let ?st = "(''human_decision'', PStr ''edit'') # result"
  have "map_of ?st ''pending_action'' = Some (PDict pending_action)"
    using assms(4) by simp
  from apply_edit_body[OF this assms(5), of "PStr content"]
  obtain st' where st': "apply_edit (PStr content) ?st = Inr st'"
      "action_body st' = Inr (PStr content)" "map_of st' ''human_decision'' = Some (PStr ''edit'')"
    by blast
  have "resume rt now elapsed workflow_id email (Waiting Draft e result) s
          = execute_and_update rt workflow_id (PStr ''edit'') st' s"
    using ev dec st'(1) assms(3)
    by (simp add: resume_def after_approval_def workflow_boundary_def decision_record_def
          dict_get_def Let_def)
  with execute_and_update_calls[of rt workflow_id "PStr ''edit''" st' s] st'(2,3)
  show ?thesis by auto
qed

text \<open>
  The sample draft \<open>m1\<close> (body \<open>Dear customer...\<close>), edited to \<open>New body\<close>: execution is
  called with \<open>New body\<close>.
\<close>

theorem edit_substitutes_body_witness:
  "approval_events (fst draft_waiting) ''m1'' = Some 0
   \<and> action_body [(''triage_decision'', PStr ''respond''), (''requires_approval'', PBool True),
                  (''pending_action'', demo_action)] = Inr (PStr ''Dear customer...'')
   \<and> (\<exists>updated_state rest.
         calls (fst (resume draft_runtime ''t3'' False ''m1'' demo_email
                       (Waiting Draft 0 [(''triage_decision'', PStr ''respond''),
                                         (''requires_approval'', PBool True),
                                         (''pending_action'', demo_action)])
                       edit_received))
           = calls edit_received @ ExecuteAction updated_state # rest
       \<and> action_body updated_state = Inr (PStr ''New body''))"
proof -
  have h1: "approval_events (fst draft_waiting) ''m1'' = Some 0"
    by (simp add: draft_waiting_eval)
  have h3: "''New body'' \<noteq> []" by simp
  have h4: "map_of [(''triage_decision'', PStr ''respond''), (''requires_approval'', PBool True),
                    (''pending_action'', demo_action)] ''pending_action''
              = Some (PDict [(''action_type'', PStr ''send_email''),
                             (''args'', PDict [(''recipient'', PStr ''customer@example.com''),
                                               (''subject'', PStr ''Re: Refund request''),
                                               (''body'', PStr ''Dear customer...'')])])"
    by (simp add: demo_action_def)
  have h5: "map_of [(''action_type'', PStr ''send_email''),
                    (''args'', PDict [(''recipient'', PStr ''customer@example.com''),
                                      (''subject'', PStr ''Re: Refund request''),
                                      (''body'', PStr ''Dear customer...'')])] ''args''
              = Some (PDict [(''recipient'', PStr ''customer@example.com''),
                             (''subject'', PStr ''Re: Refund request''),
                             (''body'', PStr ''Dear customer...'')])"
    by simp
  have orig: "action_body [(''triage_decision'', PStr ''respond''), (''requires_approval'', PBool True),
                  (''pending_action'', demo_action)] = Inr (PStr ''Dear customer...'')"
    by (simp add: action_body_def demo_action_def on_ok_def)
  from edit_substitutes_body [OF h1 edit_received_def h3 h4 h5, where rt = draft_runtime
      and now = "''t3''" and elapsed = False and email = demo_email]
  show ?thesis
    using h1 orig by blast
qed

section \<open>A signal without a stored decision\<close>

text \<open>
  C10. A workflow is woken (its event is set) while \<open>approval_decisions\<close> holds nothing for
  its id. On a notification it takes the \<^verbatim>\<open>ignore\<close> branch: the \<^verbatim>\<open>ignored\<close> completion is
  broadcast first and the outcome is \<open>Ignored\<close> (\<open>Failed\<close> only when saving to memory
  raises). On a draft approval it takes the \<^verbatim>\<open>deny\<close> branch: the outcome is \<open>Denied\<close>, with
  the \<^verbatim>\<open>denied\<close> completion broadcast last (\<open>Failed\<close> only when saving to memory raises).
  In both cases no pipeline stage is called, so nothing is executed.
\<close>

theorem missing_decision_is_fail_safe:
  assumes "events s e" and "approval_decisions s workflow_id = None"
  shows "let (s1, c1) = resume rt now elapsed workflow_id email (Waiting Notify e result) s;
             (s2, c2) = resume rt now elapsed workflow_id email (Waiting Draft e result) s;
             ignored_row = interaction workflow_id email (PStr ''notify_human'');
             denied_row = interaction workflow_id email
                            (dict_get result ''triage_decision'' (PStr ''respond''))
         in calls s1 = calls s \<and> calls s2 = calls s
          \<and> take (Suc (length (broadcasts s))) (broadcasts s1)
               = broadcasts s @ [workflow_complete workflow_id (PStr ''ignored'') (PStr ''complete'')]
          \<and> c1 = (if get_memory rt \<and> save_email_interaction rt ignored_row \<noteq> None
                   then Finished Failed else Finished Ignored)
          \<and> c2 = (if get_memory rt \<and> save_email_interaction rt denied_row \<noteq> None
                   then Finished Failed else Finished Denied)
          \<and> (c2 = Finished Denied \<longrightarrow>
                last (broadcasts s2)
                  = workflow_complete workflow_id (PStr ''denied'') (PStr ''cancelled''))"
  using assms
  by (auto simp: resume_def after_notification_def after_approval_def workflow_boundary_def
        save_interaction_def dict_get_def Let_def split: option.splits)

text \<open>The event of the sample workflow \<open>m1\<close> is set with no decision stored.\<close>

theorem missing_decision_is_fail_safe_witness:
  "events stray_signal 0 \<and> approval_decisions stray_signal ''m1'' = None
   \<and> snd (resume notify_runtime ''t2'' False ''m1'' demo_email (Waiting Notify 0 []) stray_signal)
       = Finished Ignored
   \<and> calls (fst (resume notify_runtime ''t2'' False ''m1'' demo_email (Waiting Notify 0 []) stray_signal))
       = calls stray_signal
   \<and> snd (resume notify_runtime ''t2'' False ''m1'' demo_email (Waiting Draft 0 []) stray_signal)
       = Finished Denied
   \<and> calls (fst (resume notify_runtime ''t2'' False ''m1'' demo_email (Waiting Draft 0 []) stray_signal))
       = calls stray_signal"
proof -
  have h1: "events stray_signal 0"
    by (simp add: stray_signal_def)
  have h2: "approval_decisions stray_signal ''m1'' = None"
    by (simp add: stray_signal_def notify_waiting_eval notify_suspended_eval)
  have mem: "get_memory notify_runtime" "\<And>row. save_email_interaction notify_runtime row = None"
    by (simp_all add: notify_runtime_def)
  show ?thesis
    using h1 h2 missing_decision_is_fail_safe [OF h1 h2, where rt = notify_runtime
        and now = "''t2''" and elapsed = False and email = demo_email and result = "[]"]
    by (simp add: Let_def split_def mem)
qed

section \<open>Errors stay inside the workflow\<close>



section \<open>The poller's error counter\<close>

text \<open>
  C6, as the code has it. The counter is incremented by each callback that raises and
  reset to zero by each callback that returns, so after the emails of a cycle it is the
  number of callbacks that have raised in a row. A cycle with no new email leaves it as it
  was, and a listing that raises is such a cycle, because \<^verbatim>\<open>fetch_unread_emails\<close> returns
  the empty list then. When the counter has reached 5 after the emails of a cycle, the
  loop sleeps 300 seconds and resets it to zero, then sleeps the poll interval.
\<close>

theorem consecutive_errors_counter:
  assumes "fetch_unread_emails g p = (emails, p1)"
  shows "consecutive_errors (process_emails callback emails p1)
           = (if \<forall>m \<in> set emails. callback m \<noteq> None then consecutive_errors p + length emails
              else length (takeWhile (\<lambda>m. callback m \<noteq> None) (rev emails)))
       \<and> consecutive_errors (poll_cycle callback poll_interval g p)
           = (if 5 \<le> consecutive_errors (process_emails callback emails p1) then 0
              else consecutive_errors (process_emails callback emails p1))
       \<and> actions (poll_cycle callback poll_interval g p)
           = actions (process_emails callback emails p1)
             @ (if 5 \<le> consecutive_errors (process_emails callback emails p1) then [Sleep 300] else [])
             @ [Sleep poll_interval]
       \<and> fetch_unread_emails (g\<lparr> list_unread := Inl e \<rparr>) p = ([], p)
       \<and> fetch_unread_emails (g\<lparr> list_unread := Inr [] \<rparr>) p = ([], p)
       \<and> consecutive_errors (poll_cycle callback poll_interval (g\<lparr> list_unread := Inl e \<rparr>) p)
           = (if 5 \<le> consecutive_errors p then 0 else consecutive_errors p)
       \<and> consecutive_errors (poll_cycle callback poll_interval (g\<lparr> list_unread := Inr [] \<rparr>) p)
           = (if 5 \<le> consecutive_errors p then 0 else consecutive_errors p)"
proof -
  have p1: "consecutive_errors p1 = consecutive_errors p"
    using fetch_unread_emails_fields(2)[of g p] assms by simp
  have count: "consecutive_errors (process_emails callback emails p1)
           = (if \<forall>m \<in> set emails. callback m \<noteq> None then consecutive_errors p + length emails
              else length (takeWhile (\<lambda>m. callback m \<noteq> None) (rev emails)))"
    by (simp only: process_emails_counter p1)
  have cycle: "consecutive_errors (poll_cycle callback poll_interval g p)
           = (if 5 \<le> consecutive_errors (process_emails callback emails p1) then 0
              else consecutive_errors (process_emails callback emails p1))"
    by (simp add: poll_cycle_def assms max_errors_def Let_def)
  have acts: "actions (poll_cycle callback poll_interval g p)
           = actions (process_emails callback emails p1)
             @ (if 5 \<le> consecutive_errors (process_emails callback emails p1) then [Sleep 300] else [])
             @ [Sleep poll_interval]"
    by (simp add: poll_cycle_def assms max_errors_def Let_def)
  have failed: "fetch_unread_emails (g\<lparr> list_unread := Inl e \<rparr>) p = ([], p)"
    by (simp add: fetch_unread_emails_def)
  have none: "fetch_unread_emails (g\<lparr> list_unread := Inr [] \<rparr>) p = ([], p)"
    by (simp add: fetch_unread_emails_def)
  have c1: "consecutive_errors (poll_cycle callback poll_interval (g\<lparr> list_unread := Inl e \<rparr>) p)
           = (if 5 \<le> consecutive_errors p then 0 else consecutive_errors p)"
    by (simp add: poll_cycle_def failed max_errors_def Let_def)
  have c2: "consecutive_errors (poll_cycle callback poll_interval (g\<lparr> list_unread := Inr [] \<rparr>) p)
           = (if 5 \<le> consecutive_errors p then 0 else consecutive_errors p)"
    by (simp add: poll_cycle_def none max_errors_def Let_def)
  show ?thesis
    using count cycle acts failed none c1 c2 by (intro conjI)
qed

text \<open>
  Three callbacks have failed; two new emails arrive and the callback raises on the
  second: the counter is 1 after the cycle.
\<close>

theorem consecutive_errors_counter_witness:
  "fetch_unread_emails two_mail_gmail stalled_poller
     = ([\<lparr> mail_id = ''a'', mail_fields = [] \<rparr>, \<lparr> mail_id = ''b'', mail_fields = [] \<rparr>],
        stalled_poller\<lparr> processed_ids := {''b'', ''a''} \<rparr>)
   \<and> consecutive_errors (poll_cycle picky_callback 60 two_mail_gmail stalled_poller) = 1"
proof -
  have h: "fetch_unread_emails two_mail_gmail stalled_poller
     = ([\<lparr> mail_id = ''a'', mail_fields = [] \<rparr>, \<lparr> mail_id = ''b'', mail_fields = [] \<rparr>],
        stalled_poller\<lparr> processed_ids := {''b'', ''a''} \<rparr>)"
    by (simp add: fetch_unread_emails_def two_mail_gmail_def unreachable_gmail_def stalled_poller_def)
  show ?thesis
    using h consecutive_errors_counter [OF h, where callback = picky_callback and poll_interval = 60]
    by (simp add: picky_callback_def)
qed

text \<open>
  C6 as stated fails. With three failed callbacks counted, a cycle whose listing raises
  does not increment the counter, and a cycle that completes with no email does not reset
  it: it is 3 after either.
\<close>

theorem idle_cycle_counterexample:
  "consecutive_errors stalled_poller = 3
   \<and> consecutive_errors (poll_cycle accepting_callback 60 unreachable_gmail stalled_poller) = 3
   \<and> consecutive_errors (poll_cycle accepting_callback 60 empty_gmail stalled_poller) = 3"
  by (simp add: poll_cycle_def fetch_unread_emails_def unreachable_gmail_def empty_gmail_def
        stalled_poller_def max_errors_def Let_def)

end
